theory Spec2Isabelle
  imports Complex_Main "HOL-Library.Word" "HOL-Library.Multiset"
begin

section \<open>Errors\<close>

text \<open>
  The texts that the source renders with \<open>fmt.Sprintf\<close> are kept as structured values:
  each constructor stands for one format string of the source, its arguments are the
  values that the format string is applied to.
\<close>

datatype violation =
    CPUViolation string rat rat
      \<comment> \<open>\<open>"container %v is using %v/%v CPU"\<close>: name, observed, ceiling\<close>
  | MemoryViolation string rat rat
      \<comment> \<open>\<open>"container %v is using %v/%v MB of memory"\<close>: name, observed MB, ceiling MB\<close>
  | LatencyViolation string
      \<comment> \<open>the text of the error returned by \<open>VerifyThreshold\<close>\<close>

datatype error =
    ProviderNotSupported string
      \<comment> \<open>\<open>"provider %q is not supported by NodeKiller"\<close>\<close>
  | External string
      \<comment> \<open>an error handed back by a collaborator (cluster client, template provider, ...)\<close>
  | RuntimePanic string
      \<comment> \<open>a Go run-time panic; it is not an error value, it unwinds the caller as well\<close>
  | PodStoreCreationError error
      \<comment> \<open>\<open>"pod store creation error: %v"\<close>\<close>
  | WaitTimeout int string string string int
      \<comment> \<open>\<open>"timeout while waiting for %d pods to be running in namespace '%v' with labels
          '%v' and fields '%v' - only %d found running"\<close>\<close>
  | UnknownAction string
      \<comment> \<open>\<open>"unknown action %v"\<close>\<close>
  | MeasurementIsNotRunning
      \<comment> \<open>\<open>"measurement is not running"\<close>\<close>
  | CannotBeStartedTwice string
      \<comment> \<open>\<open>"measurement %s cannot be started twice"\<close>\<close>
  | HasNotBeenStarted string
      \<comment> \<open>\<open>"measurement %s has not been started"\<close>\<close>
  | ConstraintsReadingError error
      \<comment> \<open>\<open>"resource constraints reading error: %v"\<close>\<close>
  | MetricViolationError string "violation list"
      \<comment> \<open>\<open>errors.NewMetricViolationError(metric, explanation)\<close>; the explanation of both
          callers is a fixed text around the list of violation messages\<close>

fun IsMetricViolationError :: "error \<Rightarrow> bool" where
  "IsMetricViolationError (MetricViolationError m vs) = True"
| "IsMetricViolationError e = False"

fun is_panic :: "error \<Rightarrow> bool" where
  "is_panic (RuntimePanic m) = True"
| "is_panic e = False"


section \<open>Chaos: the node killer (\<open>pkg/chaos/nodes.go\<close>)\<close>

text \<open>
  Of \<open>v1.Node\<close> and \<open>v1.Pod\<close> the code reads one field each: \<open>node.Name\<close> and
  \<open>pod.Spec.NodeName\<close>. Both records are extensible, the other fields live in the
  \<open>more\<close> part.
\<close>

record node =
  Name :: string

record pod =
  NodeName :: string

text \<open>
  \<open>api.NodeFailureConfig\<close>. \<open>FailureRate\<close> is a \<open>float64\<close>; a finite \<open>float64\<close> is a
  rational number and is modelled by its value. \<open>Interval\<close>, \<open>JitterFactor\<close> and
  \<open>SimulatedDowntime\<close> only pace the rounds and the workers.
\<close>

record NodeFailureConfig =
  FailureRate :: rat

text \<open>
  The \<open>NodeKiller\<close> struct. Its \<open>client\<close> field is the handle to the cluster; what the
  cluster answers is an input of each round (see \<open>round_input\<close>).
  \<open>killedNodes\<close> is a \<open>sets.String\<close>.
\<close>

record NodeKiller =
  config :: NodeFailureConfig
  provider :: string
  killedNodes :: "string set"

text \<open>
  What the platform does with \<open>float64\<close>: \<open>fmul\<close> is the \<open>float64\<close> product (the
  exact product rounded by IEEE 754), \<open>int_overflow\<close> is the value of the conversion
  \<open>int(x)\<close> when \<open>x\<close> is outside the range of \<open>int\<close>, which Go leaves to the
  implementation.
\<close>

record platform =
  fmul :: "rat \<Rightarrow> rat \<Rightarrow> rat"
  int_overflow :: int

definition truncate_rat :: "rat \<Rightarrow> int" where
  "truncate_rat x = (if 0 \<le> x then \<lfloor>x\<rfloor> else \<lceil>x\<rceil>)"

text \<open>The conversion \<open>int(x)\<close> of a \<open>float64\<close>: the fraction is discarded (64-bit \<open>int\<close>).\<close>

definition float64_to_int :: "platform \<Rightarrow> rat \<Rightarrow> int" where
  "float64_to_int pf x =
     (if - (2 ^ 63) \<le> truncate_rat x \<and> truncate_rat x < 2 ^ 63
      then truncate_rat x else int_overflow pf)"

definition NewNodeKiller :: "NodeFailureConfig \<Rightarrow> string \<Rightarrow> error + NodeKiller" where
  "NewNodeKiller cfg prov =
     (if prov \<noteq> ''gce'' \<and> prov \<noteq> ''gke''
      then Inl (ProviderNotSupported prov)
      else Inr \<lparr>config = cfg, provider = prov, killedNodes = {}\<rparr>)"

text \<open>
  \<open>rand.Shuffle(n, swap)\<close> of Go's \<open>math/rand\<close>: for \<open>i\<close> from \<open>n - 1\<close> down to \<open>1\<close>
  it draws \<open>j = Intn(i + 1)\<close> and calls \<open>swap(i, j)\<close>. The random source is the
  function \<open>draw\<close>; \<open>draw i mod (i + 1)\<close> is the number drawn at step \<open>i\<close>.
  The \<open>swap\<close> callback is the one of \<open>pickNodes\<close>:
  \<open>nodes[i], nodes[j] = nodes[j], nodes[i]\<close>.
\<close>

definition swap_nodes :: "nat \<Rightarrow> nat \<Rightarrow> 'a list \<Rightarrow> 'a list" where
  "swap_nodes i j xs = xs[i := xs ! j, j := xs ! i]"

fun shuffle_down :: "(nat \<Rightarrow> nat) \<Rightarrow> nat \<Rightarrow> 'a list \<Rightarrow> 'a list" where
  "shuffle_down draw 0 xs = xs"
| "shuffle_down draw (Suc i) xs =
     shuffle_down draw i (swap_nodes (Suc i) (draw (Suc i) mod (Suc i + 1)) xs)"

definition Shuffle :: "(nat \<Rightarrow> nat) \<Rightarrow> 'a list \<Rightarrow> 'a list" where
  "Shuffle draw xs = shuffle_down draw (length xs - 1) xs"

text \<open>
  What one round reads from outside: the answer of \<open>util.GetSchedulableUntainedNodes\<close>,
  the answer of \<open>client.ListPodsWithOptions\<close> for the monitoring namespace and the
  prometheus label, and the random source of the shuffle.
\<close>

record round_input =
  allNodes :: "error + node list"
  prometheusPods :: "error + pod list"
  draw :: "nat \<Rightarrow> nat"

text \<open>The loop that fills \<open>nodesHasPrometheusPod\<close>.\<close>

definition nodesHasPrometheusPod :: "pod list \<Rightarrow> string set" where
  "nodesHasPrometheusPod pods =
     fold (\<lambda>p s. if NodeName p \<noteq> '''' then insert (NodeName p) s else s) pods {}"

text \<open>
  The loop that keeps the nodes without a prometheus pod that were not killed before
  (\<open>nodes := allNodes[:0]\<close> and \<open>append\<close>: the filter reuses the array of \<open>allNodes\<close>,
  which is not read again).
\<close>

definition eligible :: "NodeKiller \<Rightarrow> node list \<Rightarrow> pod list \<Rightarrow> node list" where
  "eligible k ns pods =
     filter (\<lambda>n. Name n \<notin> nodesHasPrometheusPod pods \<and> Name n \<notin> killedNodes k) ns"

text \<open>
  \<open>nodes[:numNodes]\<close> panics when \<open>numNodes\<close> is negative; the guard
  \<open>len(nodes) > numNodes\<close> excludes the other way out of range.
\<close>

definition pickNodes :: "platform \<Rightarrow> NodeKiller \<Rightarrow> round_input \<Rightarrow> error + node list" where
  "pickNodes pf k inp =
     (case allNodes inp of
        Inl err \<Rightarrow> Inl err
      | Inr ns \<Rightarrow>
          (case prometheusPods inp of
             Inl err \<Rightarrow> Inl err
           | Inr pods \<Rightarrow>
               (let nodes = Shuffle (draw inp) (eligible k ns pods);
                    numNodes = float64_to_int pf
                      (fmul pf (FailureRate (config k)) (of_nat (length nodes)))
                in if int (length nodes) > numNodes
                   then (if numNodes < 0
                         then Inl (RuntimePanic ''slice bounds out of range'')
                         else Inr (take (nat numNodes) nodes))
                   else Inr nodes)))"

text \<open>
  \<open>kill\<close>: each selected node's name is inserted into \<open>killedNodes\<close> before its worker
  is started. The workers stop and reboot the node over SSH, log their own failures
  and touch no field of the \<open>NodeKiller\<close>; \<open>kill\<close> returns when all of them are done.
\<close>

definition kill :: "NodeKiller \<Rightarrow> node list \<Rightarrow> NodeKiller" where
  "kill k nodes =
     k\<lparr>killedNodes := fold (\<lambda>n s. insert (Name n) s) nodes (killedNodes k)\<rparr>"

text \<open>
  \<open>Run\<close>: one element of the list per tick of \<open>wait.JitterUntil\<close> before the stop
  channel closes. The result is the final \<open>NodeKiller\<close> and, per round executed, the
  nodes that were handed to \<open>kill\<close> (none in a round whose \<open>pickNodes\<close> returned an
  error, which is logged). A panic ends the run.
\<close>

fun Run :: "platform \<Rightarrow> NodeKiller \<Rightarrow> round_input list \<Rightarrow> NodeKiller \<times> node list list" where
  "Run pf k [] = (k, [])"
| "Run pf k (inp # inps) =
     (case pickNodes pf k inp of
        Inl err \<Rightarrow>
          if is_panic err then (k, [])
          else (case Run pf k inps of (k', tr) \<Rightarrow> (k', [] # tr))
      | Inr nodes \<Rightarrow>
          (case Run pf (kill k nodes) inps of (k', tr) \<Rightarrow> (k', nodes # tr)))"

text \<open>
  The specification's reading of "a node hosting a monitoring pod": some listed pod is
  assigned to the node. A pod whose \<open>NodeName\<close> is empty is not assigned to any node.
\<close>

definition hosts_monitoring_pod :: "pod list \<Rightarrow> node \<Rightarrow> bool" where
  "hosts_monitoring_pod pods n \<longleftrightarrow>
     (\<exists>p \<in> set pods. NodeName p \<noteq> '''' \<and> NodeName p = Name n)"


section \<open>Measurements: what they share\<close>

text \<open>
  \<open>measurement.CreateSummary(name, ext, content)\<close> builds the summary value that a
  measurement hands back; its three arguments are all there is to it.
\<close>

record Summary =
  SummaryName :: string
  SummaryExt :: string
  SummaryContent :: string

definition CreateSummary :: "string \<Rightarrow> string \<Rightarrow> string \<Rightarrow> Summary" where
  "CreateSummary name ext content =
     \<lparr>SummaryName = name, SummaryExt = ext, SummaryContent = content\<rparr>"

text \<open>
  \<open>Execute\<close> returns \<open>([]measurement.Summary, error)\<close>: a list of summaries (\<open>nil\<close> is
  the empty list) and an error (\<open>nil\<close> is \<open>None\<close>). Both can be present at once.
\<close>

type_synonym exec_result = "Summary list \<times> error option"


section \<open>The scheduling-throughput measurement\<close>

text \<open>
  A Go channel of the measurement: \<open>nil\<close> until \<open>make\<close>, then open until \<open>close\<close>.
\<close>

datatype channel = NilChan | OpenChan | ClosedChan

text \<open>
  The struct \<open>schedulingThroughputMeasurement\<close>. The samples are \<open>float64\<close> values,
  modelled by the rationals they denote.
\<close>

record schedulingThroughputMeasurement =
  schedulingThroughputs :: "rat list"
  isRunning :: bool
  stopCh :: channel

definition createSchedulingThroughputMeasurement :: schedulingThroughputMeasurement where
  "createSchedulingThroughputMeasurement =
     \<lparr>schedulingThroughputs = [], isRunning = False, stopCh = NilChan\<rparr>"

text \<open>The struct \<open>schedulingThroughput\<close>, the payload of the summary.\<close>

record schedulingThroughput =
  Average :: rat
  Perc50 :: rat
  Perc90 :: rat
  Perc99 :: rat

text \<open>
  What one call of \<open>Execute\<close> reads from outside: the value of
  \<open>util.GetString(config.Params, "action")\<close>, the outcome of \<open>selector.Parse\<close>, the
  outcome of \<open>measurementutil.NewPodStore\<close>, and \<open>util.PrettyPrintJSON\<close> on the payload.
\<close>

record throughput_env =
  tp_action :: "error + string"
  tp_selector_parse :: "error option"
  tp_NewPodStore :: "error option"
  tp_PrettyPrintJSON :: "schedulingThroughput \<Rightarrow> error + string"

text \<open>
  \<open>stop\<close>: closes the stop channel of a running measurement. Closing ends the sampling
  goroutine at its next \<open>select\<close>.
\<close>

definition stop :: "schedulingThroughputMeasurement \<Rightarrow> schedulingThroughputMeasurement" where
  "stop s = (if isRunning s then s\<lparr>stopCh := ClosedChan, isRunning := False\<rparr> else s)"

text \<open>
  \<open>start\<close>: a failing \<open>NewPodStore\<close> is wrapped and returned; otherwise the measurement
  runs. The goroutine it launches appends one sample to \<open>schedulingThroughputs\<close> on each
  tick until the stop channel closes (\<open>sample\<close> below is one such tick).
\<close>

definition start :: "throughput_env \<Rightarrow> schedulingThroughputMeasurement \<Rightarrow>
    schedulingThroughputMeasurement \<times> error option" where
  "start env s =
     (case tp_NewPodStore env of
        Some err \<Rightarrow> (s, Some (PodStoreCreationError err))
      | None \<Rightarrow> (s\<lparr>isRunning := True\<rparr>, None))"

text \<open>
  One tick of the sampling goroutine: with \<open>scheduled\<close> the number of scheduled pods now
  and \<open>lastScheduledCount\<close> the number at the previous tick, the sample is their
  difference over the interval in seconds (\<open>defaultWaitForPodsInterval / time.Second\<close>).
\<close>

definition sample :: "int \<Rightarrow> int \<Rightarrow> int \<Rightarrow> schedulingThroughputMeasurement \<Rightarrow>
    schedulingThroughputMeasurement" where
  "sample interval_seconds scheduled lastScheduledCount s =
     s\<lparr>schedulingThroughputs := schedulingThroughputs s @
          [of_int (scheduled - lastScheduledCount) / of_int interval_seconds]\<rparr>"

text \<open>
  Reading a slice at an index: out of range is a run-time panic.
\<close>

definition index_at :: "'a list \<Rightarrow> int \<Rightarrow> error + 'a" where
  "index_at xs i =
     (if 0 \<le> i \<and> i < int (length xs) then Inr (xs ! nat i)
      else Inl (RuntimePanic ''index out of range''))"

text \<open>
  \<open>int(math.Ceil(float64(length*p)/100)) - 1\<close>. The quotient is taken as the exact
  rational: \<open>float64(length*p)\<close> is exact below \<open>2^53\<close>, and the rounded quotient has
  the ceiling of the exact one for every length a slice in memory can have.
\<close>

definition perc_index :: "nat \<Rightarrow> nat \<Rightarrow> int" where
  "perc_index len p = \<lceil>(of_nat (len * p) :: rat) / 100\<rceil> - 1"

text \<open>
  The block of \<open>gather\<close> that fills \<open>throughputSummary\<close> from the samples: nothing for
  an empty series; otherwise the series is sorted (\<open>sort.Float64s\<close>), averaged, and read
  at the three indices. The first component is the series as \<open>sort.Float64s\<close> leaves
  it in the measurement, the second the payload (or the panic of an index out of range).
\<close>

definition throughputSummary :: "rat list \<Rightarrow> rat list \<times> (error + schedulingThroughput)" where
  "throughputSummary xs =
     (let len = length xs in
      if len > 0 then
        (let sorted = sort xs;
             sum = fold (\<lambda>x acc. acc + x) sorted 0
         in (sorted,
             case index_at sorted (perc_index len 50) of
               Inl e \<Rightarrow> Inl e
             | Inr p50 \<Rightarrow>
                (case index_at sorted (perc_index len 90) of
                   Inl e \<Rightarrow> Inl e
                 | Inr p90 \<Rightarrow>
                    (case index_at sorted (perc_index len 99) of
                       Inl e \<Rightarrow> Inl e
                     | Inr p99 \<Rightarrow>
                         Inr \<lparr>Average = sum / of_nat len,
                              Perc50 = p50, Perc90 = p90, Perc99 = p99\<rparr>))))
      else (xs, Inr \<lparr>Average = 0, Perc50 = 0, Perc90 = 0, Perc99 = 0\<rparr>))"

text \<open>
  \<open>gather\<close>. A panic leaves no return value; it is reported as the error
  \<open>RuntimePanic\<close> with no summary.
\<close>

definition gather :: "throughput_env \<Rightarrow> schedulingThroughputMeasurement \<Rightarrow>
    schedulingThroughputMeasurement \<times> exec_result" where
  "gather env s =
     (if \<not> isRunning s then (s, ([], Some MeasurementIsNotRunning))
      else
        (let s1 = stop s;
             (sorted, payload) = throughputSummary (schedulingThroughputs s1);
             s2 = s1\<lparr>schedulingThroughputs := sorted\<rparr>
         in case payload of
              Inl e \<Rightarrow> (s2, ([], Some e))
            | Inr summary \<Rightarrow>
               (case tp_PrettyPrintJSON env summary of
                  Inl err \<Rightarrow> (s2, ([], Some err))
                | Inr content \<Rightarrow>
                    (s2, ([CreateSummary ''SchedulingThroughput'' ''json'' content], None)))))"

text \<open>\<open>Execute\<close> of the scheduling-throughput measurement.\<close>

definition Execute_throughput :: "throughput_env \<Rightarrow> schedulingThroughputMeasurement \<Rightarrow>
    schedulingThroughputMeasurement \<times> exec_result" where
  "Execute_throughput env s =
     (case tp_action env of
        Inl err \<Rightarrow> (s, ([], Some err))
      | Inr action \<Rightarrow>
          if action = ''start'' then
            (if isRunning s then (s, ([], None))
             else
               (case tp_selector_parse env of
                  Some err \<Rightarrow> (s, ([], Some err))
                | None \<Rightarrow>
                    (case start env (s\<lparr>stopCh := OpenChan\<rparr>) of
                       (s', err) \<Rightarrow> (s', ([], err)))))
          else if action = ''gather'' then gather env s
          else (s, ([], Some (UnknownAction action))))"

text \<open>
  The percentile rule in the words of the specification, the reference that \<open>gather\<close>
  is compared with: the values sorted ascending; index \<open>ceil(p * n / 100) - 1\<close>,
  clamped to \<open>[0, n - 1]\<close>. There is no value for an empty list.
\<close>

definition percentile :: "nat \<Rightarrow> 'a::linorder list \<Rightarrow> 'a option" where
  "percentile p vs =
     (if vs = [] then None
      else
        (let n = int (length vs);
             idx = \<lceil>(of_nat p * of_int n :: rat) / 100\<rceil> - 1
         in Some (sort vs ! nat (max 0 (min (n - 1) idx)))))"


section \<open>Waiting for pods (\<open>measurement/util/wait_for_pods.go\<close>)\<close>

text \<open>
  \<open>ObjectSelector\<close> and \<open>WaitForPodOptions\<close>. \<open>WaitForPodsInterval\<close> only paces the
  polls.
\<close>

record ObjectSelector =
  Namespace :: string
  LabelSelector :: string
  FieldSelector :: string

record WaitForPodOptions =
  Selector :: ObjectSelector
  DesiredPodCount :: int
  EnableLogging :: bool
  CallerName :: string

text \<open>
  \<open>PodsStartupStatus\<close>: of the counts that \<open>ComputePodsStartupStatus\<close> fills, the
  function reads \<open>Running\<close> and \<open>Inactive\<close>. The zero value is what \<open>podsStatus\<close>
  holds before the first poll.
\<close>

record PodsStartupStatus =
  Running :: int
  Inactive :: int

definition zero_status :: PodsStartupStatus where
  "zero_status = \<lparr>Running = 0, Inactive = 0\<rparr>"

text \<open>
  What the \<open>select\<close> of one turn of the loop receives: the stop channel is closed, or
  the timer fires and \<open>ps.List()\<close> answers with the pods it sees.
\<close>

datatype 'p wait_event = StopClosed | Poll "'p list"

text \<open>The condition under which a poll ends the wait with success.\<close>

definition converged :: "'p list \<Rightarrow> PodsStartupStatus \<Rightarrow> int \<Rightarrow> bool" where
  "converged pods podsStatus desired \<longleftrightarrow>
     int (length pods) = Running podsStatus + Inactive podsStatus \<and>
     Running podsStatus = desired"

text \<open>
  The loop of \<open>WaitForPods\<close>, over the events its \<open>select\<close> receives. \<open>compute\<close> is
  \<open>ComputePodsStartupStatus\<close>. \<open>oldPods\<close> and the scaling direction (\<open>up\<close>, \<open>down\<close> or \<open>none\<close>, fixed
  before the loop) feed the log lines only (pods that disappeared or appeared against
  the direction) and are left out.
  The result is \<open>None\<close> while the function has not returned: it blocks in \<open>select\<close>
  for the next event. \<open>Some None\<close> is the return of \<open>nil\<close>.
\<close>

fun wait_loop :: "('p list \<Rightarrow> int \<Rightarrow> PodsStartupStatus) \<Rightarrow> WaitForPodOptions \<Rightarrow>
    PodsStartupStatus \<Rightarrow> 'p wait_event list \<Rightarrow> error option option" where
  "wait_loop compute options podsStatus [] = None"
| "wait_loop compute options podsStatus (StopClosed # evs) =
     Some (Some (WaitTimeout (DesiredPodCount options)
        (Namespace (Selector options)) (LabelSelector (Selector options))
        (FieldSelector (Selector options)) (Running podsStatus)))"
| "wait_loop compute options podsStatus (Poll pods # evs) =
     (let podsStatus' = compute pods (DesiredPodCount options)
      in if int (length pods) = (Running podsStatus' + Inactive podsStatus') \<and>
            Running podsStatus' = DesiredPodCount options
         then Some None
         else wait_loop compute options podsStatus' evs)"

text \<open>
  \<open>WaitForPods\<close>: \<open>store\<close> is the outcome of \<open>NewPodStore\<close>, an error or the store,
  given by the pods its first \<open>List()\<close> returns.
\<close>

definition WaitForPods :: "('p list \<Rightarrow> int \<Rightarrow> PodsStartupStatus) \<Rightarrow> (error + 'p list) \<Rightarrow>
    WaitForPodOptions \<Rightarrow> 'p wait_event list \<Rightarrow> error option option" where
  "WaitForPods compute store options evs =
     (case store of
        Inl err \<Rightarrow> Some (Some (PodStoreCreationError err))
      | Inr oldPods \<Rightarrow> wait_loop compute options zero_status evs)"

text \<open>
  The polls that a list of events starts with, up to the first close of the stop channel.
\<close>

fun polls_before_stop :: "'p wait_event list \<Rightarrow> 'p list list" where
  "polls_before_stop [] = []"
| "polls_before_stop (StopClosed # evs) = []"
| "polls_before_stop (Poll pods # evs) = pods # polls_before_stop evs"

text \<open>
  A status function for the examples: a pod is given by its phase, running pods and
  failed pods are counted.
\<close>

definition count_phases :: "string list \<Rightarrow> int \<Rightarrow> PodsStartupStatus" where
  "count_phases pods desired =
     \<lparr>Running = int (length (filter (\<lambda>p. p = ''Running'') pods)),
      Inactive = int (length (filter (\<lambda>p. p = ''Failed'') pods))\<rparr>"


section \<open>API responsiveness (\<open>slos/api_responsiveness_prometheus.go\<close>)\<close>


text \<open>
  The three threshold constants \<open>resourceThreshold\<close>, \<open>clusterThreshold\<close> and
  \<open>namespaceThreshold\<close> (of type \<open>time.Duration\<close>, a number of nanoseconds) are declared
  in another file of the package; they are taken as given.
\<close>

record thresholds =
  resourceThreshold :: int
  clusterThreshold :: int
  namespaceThreshold :: int

definition getSLOThreshold :: "thresholds \<Rightarrow> string \<Rightarrow> string \<Rightarrow> int" where
  "getSLOThreshold th verb scope =
     (if verb \<noteq> ''LIST'' then resourceThreshold th
      else if scope = ''cluster'' then clusterThreshold th
      else namespaceThreshold th)"




text \<open>
  A latency type for the examples: one number of nanoseconds, in violation when it
  exceeds the threshold.
\<close>

definition exceeds :: "int \<Rightarrow> int \<Rightarrow> string option" where
  "exceeds latency threshold = (if latency > threshold then Some ''too high latency'' else None)"


section \<open>Resource usage (\<open>measurement/common/resource_usage.go\<close>)\<close>

text \<open>
  \<open>measurementutil.ResourceConstraint\<close>: a CPU ceiling (\<open>float64\<close>) and a memory ceiling
  (\<open>uint64\<close>). \<open>math.MaxFloat64\<close> is \<open>(2 - 2^-52) * 2^1023\<close> and \<open>math.MaxUint64\<close> is
  \<open>2^64 - 1\<close>.
\<close>

record ResourceConstraint =
  CPUConstraint :: rat
  MemoryConstraint :: "64 word"

definition MaxFloat64 :: rat where
  "MaxFloat64 = (2 ^ 53 - 1) * 2 ^ 971"

definition MaxUint64 :: "64 word" where
  "MaxUint64 = - 1"

text \<open>
  \<open>gatherers.SingleContainerSummary\<close> (its field \<open>Name\<close> is \<open>Name_cs\<close> here) and
  \<open>gatherers.ResourceUsageSummary\<close>, a map from the percentile, written as a string, to
  the summaries of the containers; \<open>Get\<close> reads the map.
\<close>

record SingleContainerSummary =
  Name_cs :: string
  Cpu :: rat
  Mem :: "64 word"

type_synonym ResourceUsageSummary = "string \<rightharpoonup> SingleContainerSummary list"

definition Get :: "ResourceUsageSummary \<Rightarrow> string \<Rightarrow> SingleContainerSummary list" where
  "Get summary perc = (case summary perc of None \<Rightarrow> [] | Some l \<Rightarrow> l)"

text \<open>
  The gatherer is an object of another package; the measurement calls its
  \<open>StopAndSummarize\<close> with the percentiles to compute.
\<close>

record ContainerResourceGatherer =
  StopAndSummarize :: "int list \<Rightarrow> error + ResourceUsageSummary"

text \<open>The struct \<open>resourceUsageMetricMeasurement\<close>; a \<open>nil\<close> gatherer is \<open>None\<close>.\<close>

record resourceUsageMetricMeasurement =
  gatherer :: "ContainerResourceGatherer option"
  resourceConstraints :: "string \<rightharpoonup> ResourceConstraint"

definition createResourceUsageMetricMeasurement :: resourceUsageMetricMeasurement where
  "createResourceUsageMetricMeasurement =
     \<lparr>gatherer = None, resourceConstraints = Map.empty\<rparr>"

text \<open>
  What one call of \<open>Execute\<close> reads from outside: the parameters \<open>action\<close>, \<open>provider\<close>,
  \<open>host\<close>, \<open>nodeMode\<close> and \<open>resourceConstraints\<close> as \<open>util.GetString\<close> and
  \<open>util.GetStringOrDefault\<close> return them; \<open>TemplateInto\<close>, which reads the constraints
  file into the map it is given; the outcome of \<open>NewResourceUsageGatherer\<close>; and
  \<open>util.PrettyPrintJSON\<close> on the summary.
\<close>

record usage_env =
  ru_action :: "error + string"
  ru_provider :: "error + string"
  ru_host :: "error + string"
  ru_nodeMode :: "error + string"
  ru_constraintsPath :: "error + string"
  ru_TemplateInto :: "string \<Rightarrow> (string \<rightharpoonup> ResourceConstraint) \<Rightarrow>
     error + (string \<rightharpoonup> ResourceConstraint)"
  ru_NewResourceUsageGatherer :: "error + ContainerResourceGatherer"
  ru_PrettyPrintJSON :: "ResourceUsageSummary \<Rightarrow> error + string"

text \<open>
  The body of the loop over the loaded constraints: a ceiling of zero becomes the
  largest value of its type. (The map of the source holds pointers to the constraints;
  every entry is taken to point to a constraint.)
\<close>

definition default_ceilings :: "ResourceConstraint \<Rightarrow> ResourceConstraint" where
  "default_ceilings constraint =
     (let c1 = (if CPUConstraint constraint = 0
                then constraint\<lparr>CPUConstraint := MaxFloat64\<rparr> else constraint)
      in if MemoryConstraint c1 = 0 then c1\<lparr>MemoryConstraint := MaxUint64\<rparr> else c1)"

text \<open>\<open>strings.Split(s, sep)\<close> for a separator of one character.\<close>

fun split_on :: "char \<Rightarrow> string \<Rightarrow> string list" where
  "split_on sep [] = [[]]"
| "split_on sep (c # cs) =
     (if c = sep then [] # split_on sep cs
      else (case split_on sep cs of
              [] \<Rightarrow> [[c]]
            | part # parts \<Rightarrow> (c # part) # parts))"

text \<open>
  The memory figures of a message: \<open>float64(x)/(1024*1024)\<close>, taken as the exact
  rational.
\<close>

definition to_MB :: "64 word \<Rightarrow> rat" where
  "to_MB x = of_nat (unat x) / (1024 * 1024)"

text \<open>
  The loop of \<open>verifySummary\<close> over the container summaries of the 99th percentile.
  \<open>strings.Split(containerSummary.Name, "/")[1]\<close> panics on a name without a slash.
\<close>

fun violatedConstraints :: "(string \<rightharpoonup> ResourceConstraint) \<Rightarrow> SingleContainerSummary list \<Rightarrow>
    violation list \<Rightarrow> error + violation list" where
  "violatedConstraints constraints [] violated = Inr violated"
| "violatedConstraints constraints (containerSummary # rest) violated =
     (case index_at (split_on CHR ''/'' (Name_cs containerSummary)) 1 of
        Inl e \<Rightarrow> Inl e
      | Inr containerName \<Rightarrow>
         (case constraints containerName of
            None \<Rightarrow> violatedConstraints constraints rest violated
          | Some constraint \<Rightarrow>
             (let v1 = (if Cpu containerSummary > CPUConstraint constraint
                        then violated @ [CPUViolation (Name_cs containerSummary)
                               (Cpu containerSummary) (CPUConstraint constraint)]
                        else violated);
                  v2 = (if Mem containerSummary > MemoryConstraint constraint
                        then v1 @ [MemoryViolation (Name_cs containerSummary)
                               (to_MB (Mem containerSummary))
                               (to_MB (MemoryConstraint constraint))]
                        else v1)
              in violatedConstraints constraints rest v2)))"

text \<open>
  \<open>verifySummary\<close>: \<open>Inl\<close> is the panic, \<open>Inr\<close> the error it returns (\<open>None\<close> for
  \<open>nil\<close>).
\<close>

definition verifySummary :: "(string \<rightharpoonup> ResourceConstraint) \<Rightarrow> ResourceUsageSummary \<Rightarrow>
    error + error option" where
  "verifySummary constraints summary =
     (case violatedConstraints constraints (Get summary ''99'') [] of
        Inl e \<Rightarrow> Inl e
      | Inr violated \<Rightarrow>
          if length violated > 0
          then Inr (Some (MetricViolationError ''resource constraints'' violated))
          else Inr None)"

text \<open>
  The branch \<open>start\<close> of \<open>Execute\<close>. The node set, the sampling periods and the
  goroutine that collects belong to the gatherer. When \<open>NewResourceUsageGatherer\<close>
  fails the field \<open>gatherer\<close> receives the \<open>nil\<close> it returns with its error.
\<close>

definition start_usage :: "usage_env \<Rightarrow> resourceUsageMetricMeasurement \<Rightarrow>
    resourceUsageMetricMeasurement \<times> exec_result" where
  "start_usage env e =
     (case ru_provider env of
        Inl err \<Rightarrow> (e, ([], Some err))
      | Inr provider_param \<Rightarrow>
     (case ru_host env of
        Inl err \<Rightarrow> (e, ([], Some err))
      | Inr host \<Rightarrow>
     (case ru_nodeMode env of
        Inl err \<Rightarrow> (e, ([], Some err))
      | Inr nodeMode \<Rightarrow>
     (case ru_constraintsPath env of
        Inl err \<Rightarrow> (e, ([], Some err))
      | Inr constraintsPath \<Rightarrow>
     (case (if constraintsPath \<noteq> ''''
            then (case ru_TemplateInto env constraintsPath (resourceConstraints e) of
                    Inl err \<Rightarrow> Inl (ConstraintsReadingError err)
                  | Inr loaded \<Rightarrow> Inr (\<lambda>name. map_option default_ceilings (loaded name)))
            else Inr (resourceConstraints e)) of
        Inl err \<Rightarrow> (e, ([], Some err))
      | Inr constraints \<Rightarrow>
     (case ru_NewResourceUsageGatherer env of
        Inl err \<Rightarrow> (e\<lparr>resourceConstraints := constraints, gatherer := None\<rparr>, ([], Some err))
      | Inr g \<Rightarrow> (e\<lparr>resourceConstraints := constraints, gatherer := Some g\<rparr>, ([], None))))))))"

text \<open>The branch \<open>gather\<close> of \<open>Execute\<close>; a panic of \<open>verifySummary\<close> leaves no summary.\<close>

definition gather_usage :: "usage_env \<Rightarrow> resourceUsageMetricMeasurement \<Rightarrow>
    resourceUsageMetricMeasurement \<times> exec_result" where
  "gather_usage env e =
     (case gatherer e of
        None \<Rightarrow> (e, ([], None))
      | Some g \<Rightarrow>
         (case StopAndSummarize g [50, 90, 99, 100] of
            Inl err \<Rightarrow> (e, ([], Some err))
          | Inr summary \<Rightarrow>
             (case ru_PrettyPrintJSON env summary of
                Inl err \<Rightarrow> (e, ([], Some err))
              | Inr content \<Rightarrow>
                 (case verifySummary (resourceConstraints e) summary of
                    Inl panic \<Rightarrow> (e, ([], Some panic))
                  | Inr err \<Rightarrow>
                      (e, ([CreateSummary ''ResourceUsageSummary'' ''json'' content], err))))))"

definition Execute_usage :: "usage_env \<Rightarrow> resourceUsageMetricMeasurement \<Rightarrow>
    resourceUsageMetricMeasurement \<times> exec_result" where
  "Execute_usage env e =
     (case ru_action env of
        Inl err \<Rightarrow> (e, ([], Some err))
      | Inr action \<Rightarrow>
          if action = ''start'' then start_usage env e
          else if action = ''gather'' then gather_usage env e
          else (e, ([], Some (UnknownAction action))))"

text \<open>
  For stating what \<open>verifySummary\<close> reports: the container a message is about, the key
  under which a container summary is looked up (the second part of its name) and the
  messages of one container summary under its constraint, in the order in which the loop
  appends them.
\<close>

fun subject :: "violation \<Rightarrow> string" where
  "subject (CPUViolation name observed limit) = name"
| "subject (MemoryViolation name observed limit) = name"
| "subject (LatencyViolation text) = []"

definition containerName :: "SingleContainerSummary \<Rightarrow> string" where
  "containerName containerSummary = split_on CHR ''/'' (Name_cs containerSummary) ! 1"

definition breaches :: "ResourceConstraint \<Rightarrow> SingleContainerSummary \<Rightarrow> violation list" where
  "breaches constraint containerSummary =
     (if Cpu containerSummary > CPUConstraint constraint
      then [CPUViolation (Name_cs containerSummary) (Cpu containerSummary)
              (CPUConstraint constraint)]
      else []) @
     (if Mem containerSummary > MemoryConstraint constraint
      then [MemoryViolation (Name_cs containerSummary) (to_MB (Mem containerSummary))
              (to_MB (MemoryConstraint constraint))]
      else [])"

definition messages :: "(string \<rightharpoonup> ResourceConstraint) \<Rightarrow> SingleContainerSummary list \<Rightarrow>
    violation list" where
  "messages constraints summaries =
     concat (map (\<lambda>s. case constraints (containerName s) of
                          None \<Rightarrow> []
                        | Some constraint \<Rightarrow> breaches constraint s) summaries)"


subsection \<open>The gatherer's percentiles\<close>

text \<open>
  \<open>strconv.Itoa\<close> on a number that is not negative: its decimal digits.
\<close>

fun decimal :: "nat \<Rightarrow> string" where
  "decimal n =
     (if n < 10 then [''0123456789'' ! n]
      else decimal (n div 10) @ [''0123456789'' ! (n mod 10)])"

declare decimal.simps [simp del]

text \<open>
  Modelled from the spec: one sample of the resource gatherer (package
  \<open>measurement/util/gatherers\<close>, of which the sources hold only the calls in
  \<open>resource_usage.go\<close>). The specification has the two sampling cadences produce
  per-container CPU and memory samples: a sample is the name of its container, the CPU
  usage and the memory usage.
\<close>

type_synonym usage_sample = "string \<times> rat \<times> 64 word"

text \<open>
  Modelled from the spec: the CPU values accumulated for one container, the gatherer's
  own bookkeeping, in the order of their arrival.
\<close>

definition cpu_series :: "string \<Rightarrow> usage_sample list \<Rightarrow> rat list" where
  "cpu_series c samples = map (\<lambda>s. fst (snd s)) (filter (\<lambda>s. fst s = c) samples)"

text \<open>
  Modelled from the spec: the memory values accumulated for one container.
\<close>

definition mem_series :: "string \<Rightarrow> usage_sample list \<Rightarrow> 64 word list" where
  "mem_series c samples = map (\<lambda>s. snd (snd s)) (filter (\<lambda>s. fst s = c) samples)"

text \<open>
  Modelled from the spec: the gatherer's computation of one requested percentile, which
  is not among the sources. In the specification's words the gather ``computes requested
  percentiles per container from the accumulated samples'', each by the rule
  \<open>percentile\<close>, which it names for resource usage as for scheduling throughput: one
  container summary for each container that has samples, with the percentile of its CPU
  values and the percentile of its memory values.
\<close>

definition percentile_entries :: "nat \<Rightarrow> usage_sample list \<Rightarrow> SingleContainerSummary list" where
  "percentile_entries p samples =
     concat (map (\<lambda>c.
        case percentile p (cpu_series c samples) of
          None \<Rightarrow> []
        | Some cpu \<Rightarrow>
           (case percentile p (mem_series c samples) of
              None \<Rightarrow> []
            | Some mem \<Rightarrow> [\<lparr>Name_cs = c, Cpu = cpu, Mem = mem\<rparr>]))
       (remdups (map fst samples)))"

text \<open>
  Modelled from the spec: the summary that \<open>StopAndSummarize\<close> builds for the percentiles
  it is asked for (the method is not among the sources). The summary is keyed by the
  percentile written in decimal, the key under which \<open>summary.Get("99")\<close> of
  \<open>verifySummary\<close> reads it.
\<close>

definition summarize :: "usage_sample list \<Rightarrow> int list \<Rightarrow> ResourceUsageSummary" where
  "summarize samples percentiles =
     map_of (map (\<lambda>p. (decimal (nat p), percentile_entries (nat p) samples)) percentiles)"

text \<open>
  Modelled from the spec: a gatherer that has accumulated \<open>samples\<close> and whose
  \<open>StopAndSummarize\<close> (not among the sources) summarizes them.
\<close>

definition spec_gatherer :: "usage_sample list \<Rightarrow> ContainerResourceGatherer" where
  "spec_gatherer samples =
     \<lparr>StopAndSummarize = (\<lambda>percentiles. Inr (summarize samples percentiles))\<rparr>"


section \<open>Probes (\<open>measurement/common/probes/probes.go\<close>)\<close>

text \<open>
  \<open>proberConfig\<close> (its field \<open>Name\<close> is \<open>Name_prober\<close> here) and the struct
  \<open>probesMeasurement\<close> (its field \<open>config\<close> is \<open>config_prober\<close> here). The framework is a
  handle to the cluster, \<open>nil\<close> until \<open>initialize\<close>. A \<open>time.Time\<close> is modelled by the
  nanoseconds since the zero time, so \<open>IsZero\<close> is equality with \<open>0\<close>.
\<close>

record proberConfig =
  Name_prober :: string
  MetricVersion :: string
  Query :: string
  Manifests :: string
  ProbeLabelValues :: "string list"

datatype Framework = ClusterFramework

record probesMeasurement =
  config_prober :: proberConfig
  framework :: "Framework option"
  replicasPerProbe :: int
  templateMapping :: "string \<rightharpoonup> int"
  startTime :: int

definition IsZero :: "int \<Rightarrow> bool" where
  "IsZero t \<longleftrightarrow> t = 0"

definition createProber :: "proberConfig \<Rightarrow> probesMeasurement" where
  "createProber cfg =
     \<lparr>config_prober = cfg, framework = None, replicasPerProbe = 0,
      templateMapping = Map.empty, startTime = 0\<rparr>"

definition networkLatencyConfig :: proberConfig where
  "networkLatencyConfig =
     \<lparr>Name_prober = ''InClusterNetworkLatency'', MetricVersion = ''v1'',
      Query = ''quantile_over_time(0.99, probes:in_cluster_network_latency:histogram_quantile[%v])'',
      Manifests = ''*.yaml'', ProbeLabelValues = [''ping-client'', ''ping-server'']\<rparr>"

text \<open>
  What one call of \<open>Execute\<close> reads from outside. Of the configuration:
  \<open>config.CloudProvider\<close>, \<open>config.PrometheusFramework\<close>, \<open>config.ClusterFramework\<close> and
  the parameters \<open>action\<close>, \<open>replicasPerProbe\<close> and \<open>threshold\<close> as the \<open>util\<close> getters
  return them. Of the cluster: the outcomes of \<open>client.CreateNamespace\<close>,
  \<open>createProbesObjects\<close> and \<open>waitForProbesReady\<close>, the clock, the answer to the query,
  \<open>NewLatencyMetricPrometheus\<close> on the samples, \<open>VerifyThreshold\<close> of the latency, and
  \<open>createSummary\<close> of the latency.
\<close>

record ('s, 'l) probes_env =
  pr_CloudProvider :: string
  pr_PrometheusFramework :: "Framework option"
  pr_ClusterFramework :: Framework
  pr_action :: "error + string"
  pr_replicasPerProbe :: "error + int"
  pr_threshold :: "error + int"
  pr_CreateNamespace :: "error option"
  pr_createProbesObjects :: "error option"
  pr_waitForProbesReady :: "error option"
  pr_Now :: int
  pr_Query :: "error + 's"
  pr_NewLatencyMetricPrometheus :: "'s \<Rightarrow> error + 'l"
  pr_VerifyThreshold :: "'l \<Rightarrow> int \<Rightarrow> string option"
  pr_createSummary :: "'l \<Rightarrow> error + Summary"

definition initialize :: "('s, 'l) probes_env \<Rightarrow> probesMeasurement \<Rightarrow>
    probesMeasurement \<times> error option" where
  "initialize env p =
     (case pr_replicasPerProbe env of
        Inl err \<Rightarrow> (p, Some err)
      | Inr n \<Rightarrow>
          (p\<lparr>framework := Some (pr_ClusterFramework env), replicasPerProbe := n,
             templateMapping := [''Replicas'' \<mapsto> n]\<rparr>, None))"

definition start_probes :: "('s, 'l) probes_env \<Rightarrow> probesMeasurement \<Rightarrow>
    probesMeasurement \<times> error option" where
  "start_probes env p =
     (if \<not> IsZero (startTime p)
      then (p, Some (CannotBeStartedTwice (Name_prober (config_prober p))))
      else
        (case initialize env p of
           (p1, Some err) \<Rightarrow> (p1, Some err)
         | (p1, None) \<Rightarrow>
            (case pr_CreateNamespace env of
               Some err \<Rightarrow> (p1, Some err)
             | None \<Rightarrow>
                (case pr_createProbesObjects env of
                   Some err \<Rightarrow> (p1, Some err)
                 | None \<Rightarrow>
                    (case pr_waitForProbesReady env of
                       Some err \<Rightarrow> (p1, Some err)
                     | None \<Rightarrow> (p1\<lparr>startTime := pr_Now env\<rparr>, None))))))"

text \<open>
  \<open>gather\<close> returns \<open>(measurement.Summary, error)\<close>; the summary is \<open>nil\<close> (\<open>None\<close>) on
  every path that returns before \<open>createSummary\<close> succeeded.
\<close>

definition gather_probes :: "('s, 'l) probes_env \<Rightarrow> probesMeasurement \<Rightarrow>
    Summary option \<times> error option" where
  "gather_probes env p =
     (if IsZero (startTime p)
      then (None, Some (HasNotBeenStarted (Name_prober (config_prober p))))
      else
        (case pr_threshold env of
           Inl err \<Rightarrow> (None, Some err)
         | Inr threshold \<Rightarrow>
            (case pr_Query env of
               Inl err \<Rightarrow> (None, Some err)
             | Inr samples \<Rightarrow>
                (case pr_NewLatencyMetricPrometheus env samples of
                   Inl err \<Rightarrow> (None, Some err)
                 | Inr latency \<Rightarrow>
                    (let violation =
                       (if threshold > 0
                        then (case pr_VerifyThreshold env latency threshold of
                                Some err \<Rightarrow>
                                  Some (MetricViolationError (Name_prober (config_prober p))
                                          [LatencyViolation err])
                              | None \<Rightarrow> None)
                        else None)
                     in case pr_createSummary env latency of
                          Inl err \<Rightarrow> (None, Some err)
                        | Inr summary \<Rightarrow> (Some summary, violation))))))"

text \<open>
  \<open>Execute\<close> of the probes measurement. The slice it returns on \<open>gather\<close> holds the
  summary that \<open>gather\<close> returned, which may be \<open>nil\<close>.
\<close>

definition Execute_probes :: "('s, 'l) probes_env \<Rightarrow> probesMeasurement \<Rightarrow>
    probesMeasurement \<times> (Summary option list \<times> error option)" where
  "Execute_probes env p =
     (if pr_CloudProvider env = ''kubemark'' then (p, ([], None))
      else if pr_PrometheusFramework env = None then (p, ([], None))
      else
        (case pr_action env of
           Inl err \<Rightarrow> (p, ([], Some err))
         | Inr action \<Rightarrow>
             if action = ''start'' then
               (case start_probes env p of (p', err) \<Rightarrow> (p', ([], err)))
             else if action = ''gather'' then
               (case gather_probes env p of
                  (summary, Some err) \<Rightarrow>
                    if \<not> IsMetricViolationError err then (p, ([], Some err))
                    else (p, ([summary], Some err))
                | (summary, None) \<Rightarrow> (p, ([summary], None)))
             else (p, ([], Some (UnknownAction action)))))"


section \<open>Environments for the examples\<close>

text \<open>
  A cluster on which every collaborator succeeds, for the action given: the pod store is
  created, the probes come up at the instant \<open>1000\<close>, the measured latency is \<open>5\<close>.
\<close>

definition example_throughput_env :: "string \<Rightarrow> throughput_env" where
  "example_throughput_env action =
     \<lparr>tp_action = Inr action, tp_selector_parse = None, tp_NewPodStore = None,
      tp_PrettyPrintJSON = (\<lambda>payload. Inr ''{}'')\<rparr>"

definition example_probes_env :: "string \<Rightarrow> (unit, int) probes_env" where
  "example_probes_env action =
     \<lparr>pr_CloudProvider = ''gce'', pr_PrometheusFramework = Some ClusterFramework,
      pr_ClusterFramework = ClusterFramework, pr_action = Inr action,
      pr_replicasPerProbe = Inr 2, pr_threshold = Inr 0,
      pr_CreateNamespace = None, pr_createProbesObjects = None,
      pr_waitForProbesReady = None, pr_Now = 1000, pr_Query = Inr (),
      pr_NewLatencyMetricPrometheus = (\<lambda>samples. Inr 5),
      pr_VerifyThreshold = exceeds,
      pr_createSummary = (\<lambda>latency. Inr (CreateSummary ''InClusterNetworkLatency'' ''json'' ''{}''))\<rparr>"

definition example_usage_env :: "string \<Rightarrow> usage_env" where
  "example_usage_env action =
     \<lparr>ru_action = Inr action, ru_provider = Inr ''gce'', ru_host = Inr ''10.0.0.1'',
      ru_nodeMode = Inr ''master'', ru_constraintsPath = Inr '''',
      ru_TemplateInto = (\<lambda>path constraints. Inr constraints),
      ru_NewResourceUsageGatherer = Inr \<lparr>StopAndSummarize = (\<lambda>percentiles. Inr Map.empty)\<rparr>,
      ru_PrettyPrintJSON = (\<lambda>summary. Inr ''{}'')\<rparr>"


text \<open>
  Samples of two containers: three of \<open>p/c\<close> and one of \<open>q/d\<close>.
\<close>

definition example_samples :: "usage_sample list" where
  "example_samples = [(''p/c'', 1, 10), (''p/c'', 3, 30), (''p/c'', 2, 20), (''q/d'', 5, 50)]"


section \<open>Proofs: the node killer\<close>

subsection \<open>Construction\<close>

text \<open>
  C10. \<open>NewNodeKiller\<close> returns an error and no injector for every provider other than
  \<open>gce\<close> and \<open>gke\<close>; for these two it returns an injector whose set of killed nodes
  is empty.
\<close>

theorem NewNodeKiller_provider:
  "(prov \<noteq> ''gce'' \<and> prov \<noteq> ''gke'' \<longrightarrow> (\<exists>err. NewNodeKiller cfg prov = Inl err)) \<and>
   (prov = ''gce'' \<or> prov = ''gke'' \<longrightarrow>
      (\<exists>k. NewNodeKiller cfg prov = Inr k \<and> killedNodes k = {} \<and>
           provider k = prov \<and> config k = cfg))"
  by (auto simp: NewNodeKiller_def)

theorem NewNodeKiller_provider_witness:
  "(\<exists>err. NewNodeKiller \<lparr>FailureRate = 3 / 10\<rparr> ''aws'' = Inl err) \<and>
   (\<exists>k. NewNodeKiller \<lparr>FailureRate = 3 / 10\<rparr> ''gke'' = Inr k \<and> killedNodes k = {})"
  using NewNodeKiller_provider [of "''aws''" "\<lparr>FailureRate = 3 / 10\<rparr>"]
        NewNodeKiller_provider [of "''gke''" "\<lparr>FailureRate = 3 / 10\<rparr>"]
  by auto

subsection \<open>Shuffling, filtering and the conversion to \<open>int\<close>\<close>

lemma floor_rat_divide_numeral:
  "\<lfloor>(numeral a :: rat) / numeral b\<rfloor> = numeral a div numeral b"
  using floor_divide_of_int_eq [of "numeral a" "numeral b", where ?'a = rat] by simp

lemma mset_swap_nodes:
  "i < length xs \<Longrightarrow> j < length xs \<Longrightarrow> mset (swap_nodes i j xs) = mset xs"
  unfolding swap_nodes_def by (simp add: mset_swap)

lemma length_swap_nodes: "length (swap_nodes i j xs) = length xs"
  by (simp add: swap_nodes_def)

lemma mset_shuffle_down:
  "i < length xs \<Longrightarrow> mset (shuffle_down d i xs) = mset xs"
proof (induction i arbitrary: xs)
  case 0
  show ?case by simp
next
  case (Suc i)
  have j: "d (Suc i) mod (Suc i + 1) < length xs"
  proof -
    have "d (Suc i) mod (Suc i + 1) < Suc i + 1" by (rule mod_less_divisor) simp
    then show ?thesis using Suc.prems by linarith
  qed
  have "mset (shuffle_down d i (swap_nodes (Suc i) (d (Suc i) mod (Suc i + 1)) xs))
        = mset (swap_nodes (Suc i) (d (Suc i) mod (Suc i + 1)) xs)"
    using Suc.prems by (intro Suc.IH) (simp add: length_swap_nodes)
  then show ?case using Suc.prems j by (simp add: mset_swap_nodes)
qed

lemma mset_Shuffle: "mset (Shuffle d xs) = mset xs"
proof (cases xs)
  case Nil
  then show ?thesis by (simp add: Shuffle_def)
next
  case (Cons x ys)
  then show ?thesis by (simp add: Shuffle_def mset_shuffle_down)
qed

lemma fold_insert_prometheus:
  "fold (\<lambda>p s. if NodeName p \<noteq> '''' then insert (NodeName p) s else s) pods S
     = S \<union> {NodeName p | p. p \<in> set pods \<and> NodeName p \<noteq> ''''}"
  by (induction pods arbitrary: S) auto

lemma nodesHasPrometheusPod_iff:
  "x \<in> nodesHasPrometheusPod pods \<longleftrightarrow> (\<exists>p \<in> set pods. NodeName p \<noteq> '''' \<and> NodeName p = x)"
  by (auto simp: nodesHasPrometheusPod_def fold_insert_prometheus)

lemma fold_insert_names:
  "fold (\<lambda>n s. insert (Name n) s) nodes S = S \<union> Name ` set nodes"
  by (induction nodes arbitrary: S) auto

lemma killedNodes_kill: "killedNodes (kill k nodes) = killedNodes k \<union> Name ` set nodes"
  by (simp add: kill_def fold_insert_names)

lemma truncate_rat_nonneg: "0 \<le> x \<Longrightarrow> truncate_rat x = \<lfloor>x\<rfloor>"
  by (simp add: truncate_rat_def)

lemma eligible_spec:
  "eligible k ns pods = filter (\<lambda>n. \<not> hosts_monitoring_pod pods n \<and> Name n \<notin> killedNodes k) ns"
  by (simp add: eligible_def hosts_monitoring_pod_def nodesHasPrometheusPod_iff)

lemma float64_to_int_floor:
  assumes "0 \<le> x" "x < 2 ^ 63"
  shows "float64_to_int pf x = \<lfloor>x\<rfloor>"
proof -
  have "0 \<le> \<lfloor>x\<rfloor>" using assms(1) by simp
  moreover have "\<lfloor>x\<rfloor> < 2 ^ 63" using assms(2) by (simp add: floor_less_iff)
  ultimately show ?thesis using assms(1) by (simp add: float64_to_int_def truncate_rat_def)
qed

lemma pickNodes_value:
  assumes "allNodes inp = Inr ns" "prometheusPods inp = Inr pods"
    and "0 \<le> fmul pf (FailureRate (config k)) (of_nat (length (eligible k ns pods)))"
    and "fmul pf (FailureRate (config k)) (of_nat (length (eligible k ns pods))) < 2 ^ 63"
  shows "pickNodes pf k inp =
     Inr (take (nat \<lfloor>fmul pf (FailureRate (config k)) (of_nat (length (eligible k ns pods)))\<rfloor>)
            (Shuffle (draw inp) (eligible k ns pods)))"
proof -
  let ?E = "eligible k ns pods"
  let ?S = "Shuffle (draw inp) ?E"
  let ?x = "fmul pf (FailureRate (config k)) (of_nat (length ?E))"
  have len: "length ?S = length ?E"
    by (rule mset_eq_length) (rule mset_Shuffle)
  have conv: "float64_to_int pf ?x = \<lfloor>?x\<rfloor>"
    using assms(3,4) by (rule float64_to_int_floor)
  have nn: "0 \<le> \<lfloor>?x\<rfloor>" using assms(3) by simp
  show ?thesis
    using assms(1,2) nn by (simp add: pickNodes_def Let_def len conv)
qed

text \<open>
  C1 (as amended). Let \<open>E\<close> be the schedulable untainted nodes without those that host
  a monitoring pod and without those in the set of killed nodes, and let \<open>x\<close> be the
  \<open>float64\<close> product of the failure rate and \<open>|E|\<close>. Whenever \<open>0 \<le> x\<close> and
  \<open>x\<close> is in the range of \<open>int\<close>, \<open>pickNodes\<close> returns exactly \<open>min |E| \<lfloor>x\<rfloor>\<close>
  nodes, for every outcome of the shuffle; the selection is a sub-multiset of \<open>E\<close>, so
  none of its nodes hosts a monitoring pod or was killed before.
\<close>

theorem pickNodes_count:
  assumes "allNodes inp = Inr ns" "prometheusPods inp = Inr pods"
    and "E = filter (\<lambda>n. \<not> hosts_monitoring_pod pods n \<and> Name n \<notin> killedNodes k) ns"
    and "0 \<le> fmul pf (FailureRate (config k)) (of_nat (length E))"
    and "fmul pf (FailureRate (config k)) (of_nat (length E)) < 2 ^ 63"
  shows "\<exists>sel. pickNodes pf k inp = Inr sel \<and>
           int (length sel) = min (int (length E)) \<lfloor>fmul pf (FailureRate (config k)) (of_nat (length E))\<rfloor> \<and>
           mset sel \<subseteq># mset E \<and>
           (\<forall>n \<in> set sel. n \<in> set ns \<and> \<not> hosts_monitoring_pod pods n \<and> Name n \<notin> killedNodes k)"
proof -
  let ?x = "fmul pf (FailureRate (config k)) (of_nat (length E))"
  let ?S = "Shuffle (draw inp) E"
  let ?sel = "take (nat \<lfloor>?x\<rfloor>) ?S"
  have E: "E = eligible k ns pods" using assms(3) by (simp add: eligible_spec)
  have val: "pickNodes pf k inp = Inr ?sel"
    using pickNodes_value [OF assms(1,2)] assms(4,5) unfolding E by simp
  have msetS: "mset ?S = mset E" by (rule mset_Shuffle)
  have len: "length ?S = length E" using msetS by (rule mset_eq_length)
  have nn: "0 \<le> \<lfloor>?x\<rfloor>" using assms(4) by simp
  have "length ?sel = min (length E) (nat \<lfloor>?x\<rfloor>)"
    by (simp add: len)
  then have cnt: "int (length ?sel) = min (int (length E)) \<lfloor>?x\<rfloor>"
    using nn by linarith
  have "mset ?S = mset ?sel + mset (drop (nat \<lfloor>?x\<rfloor>) ?S)"
    by (simp flip: mset_append)
  then have "mset ?sel \<subseteq># mset ?S"
    unfolding mset_subset_eq_exists_conv by (rule exI)
  then have sub: "mset ?sel \<subseteq># mset E" using msetS by simp
  have "set ?sel \<subseteq> set ?S" by (rule set_take_subset)
  moreover have "set ?S = set E" using msetS by (rule mset_eq_setD)
  ultimately have "set ?sel \<subseteq> set E" by simp
  then have mem: "\<forall>n \<in> set ?sel. n \<in> set ns \<and> \<not> hosts_monitoring_pod pods n \<and> Name n \<notin> killedNodes k"
    using assms(3) by auto
  from val cnt sub mem show ?thesis by blast
qed

lemma set_Shuffle: "set (Shuffle d xs) = set xs"
  using mset_Shuffle [of d xs] by (rule mset_eq_setD)

lemma pickNodes_subset_eligible:
  assumes "pickNodes pf k inp = Inr sel"
  shows "\<exists>ns pods. allNodes inp = Inr ns \<and> prometheusPods inp = Inr pods \<and>
           set sel \<subseteq> set (eligible k ns pods)"
proof -
  from assms obtain ns where ns: "allNodes inp = Inr ns"
    by (cases "allNodes inp") (simp_all add: pickNodes_def)
  from assms ns obtain pods where pods: "prometheusPods inp = Inr pods"
    by (cases "prometheusPods inp") (simp_all add: pickNodes_def)
  let ?S = "Shuffle (draw inp) (eligible k ns pods)"
  from assms ns pods have "sel = ?S \<or> (\<exists>m. sel = take m ?S)"
    by (auto simp: pickNodes_def Let_def split: if_splits)
  then have "set sel \<subseteq> set ?S"
    by (auto dest: in_set_takeD)
  then show ?thesis using ns pods by (simp add: set_Shuffle)
qed

lemma pickNodes_not_killed:
  assumes "pickNodes pf k inp = Inr sel" "n \<in> set sel"
  shows "Name n \<notin> killedNodes k"
  using pickNodes_subset_eligible [OF assms(1)] assms(2) by (auto simp: eligible_def)

lemma Run_invariant:
  "Run pf k inps = (k', tr) \<Longrightarrow>
     killedNodes k \<subseteq> killedNodes k' \<and>
     (\<forall>sel \<in> set tr. Name ` set sel \<subseteq> killedNodes k' \<and> Name ` set sel \<inter> killedNodes k = {}) \<and>
     (\<forall>i j. i < j \<longrightarrow> j < length tr \<longrightarrow> Name ` set (tr ! i) \<inter> Name ` set (tr ! j) = {})"
proof (induction inps arbitrary: k k' tr)
  case Nil
  then show ?case by simp
next
  case (Cons inp inps)
  show ?case
  proof (cases "pickNodes pf k inp")
    case (Inl err)
    show ?thesis
    proof (cases "is_panic err")
      case True
      with Inl Cons.prems show ?thesis by simp
    next
      case False
      with Inl Cons.prems obtain tr0 where r: "Run pf k inps = (k', tr0)" and tr: "tr = [] # tr0"
        by (auto split: prod.splits)
      note IH = Cons.IH [OF r]
      have "\<forall>i j. i < j \<longrightarrow> j < length tr \<longrightarrow> Name ` set (tr ! i) \<inter> Name ` set (tr ! j) = {}"
      proof (intro allI impI)
        fix i j assume ij: "i < j" "j < length tr"
        show "Name ` set (tr ! i) \<inter> Name ` set (tr ! j) = {}"
        proof (cases i)
          case 0
          then show ?thesis by (simp add: tr)
        next
          case (Suc i')
          with ij obtain j' where "j = Suc j'" "i' < j'" "j' < length tr0"
            by (cases j) (auto simp: tr)
          with Suc IH show ?thesis by (simp add: tr)
        qed
      qed
      with IH show ?thesis by (simp add: tr)
    qed
  next
    case (Inr nodes)
    with Cons.prems obtain tr0 where r: "Run pf (kill k nodes) inps = (k', tr0)"
      and tr: "tr = nodes # tr0"
      by (auto split: prod.splits)
    note IH = Cons.IH [OF r]
    have fresh: "Name ` set nodes \<inter> killedNodes k = {}"
      using pickNodes_not_killed [OF Inr] by auto
    have kk: "killedNodes (kill k nodes) = killedNodes k \<union> Name ` set nodes"
      by (rule killedNodes_kill)
    have sub: "killedNodes k \<subseteq> killedNodes k'" "Name ` set nodes \<subseteq> killedNodes k'"
      using IH kk by auto
    have later: "\<forall>sel \<in> set tr0. Name ` set sel \<subseteq> killedNodes k' \<and>
        Name ` set sel \<inter> killedNodes k = {} \<and> Name ` set sel \<inter> Name ` set nodes = {}"
      using IH unfolding kk by blast
    have "\<forall>i j. i < j \<longrightarrow> j < length tr \<longrightarrow> Name ` set (tr ! i) \<inter> Name ` set (tr ! j) = {}"
    proof (intro allI impI)
      fix i j assume ij: "i < j" "j < length tr"
      then obtain j' where j: "j = Suc j'" "j' < length tr0"
        by (cases j) (auto simp: tr)
      show "Name ` set (tr ! i) \<inter> Name ` set (tr ! j) = {}"
      proof (cases i)
        case 0
        have "tr0 ! j' \<in> set tr0" using j by simp
        with later have "Name ` set (tr0 ! j') \<inter> Name ` set nodes = {}" by blast
        then show ?thesis using 0 j by (auto simp: tr)
      next
        case (Suc i')
        with ij j have "i' < j'" by simp
        with Suc j IH show ?thesis by (simp add: tr)
      qed
    qed
    with sub later fresh show ?thesis by (auto simp: tr)
  qed
qed

text \<open>
  C2. A node that was selected and killed in some round of a run is never selected in a
  later round of that run: \<open>kill\<close> puts the name of every selected node into
  \<open>killedNodes\<close>, \<open>pickNodes\<close> selects no node whose name is in \<open>killedNodes\<close>,
  and so in the trace of \<open>Run\<close> a node of round \<open>i\<close> is recorded as killed at the
  end and differs from every node of each later round \<open>j\<close>.
\<close>

theorem Run_never_reselects:
  "(\<forall>n \<in> set nodes. Name n \<in> killedNodes (kill k nodes)) \<and>
   (pickNodes pf k inp = Inr sel \<longrightarrow> (\<forall>n \<in> set sel. Name n \<notin> killedNodes k)) \<and>
   (Run pf k inps = (k', tr) \<longrightarrow> i < j \<longrightarrow> j < length tr \<longrightarrow> n \<in> set (tr ! i) \<longrightarrow>
      Name n \<in> killedNodes k' \<and> (\<forall>m \<in> set (tr ! j). Name m \<noteq> Name n))"
proof (intro conjI impI)
  show "\<forall>n \<in> set nodes. Name n \<in> killedNodes (kill k nodes)"
    by (simp add: killedNodes_kill)
next
  assume "pickNodes pf k inp = Inr sel"
  then show "\<forall>n \<in> set sel. Name n \<notin> killedNodes k"
    by (blast dest: pickNodes_not_killed)
next
  assume r: "Run pf k inps = (k', tr)" and ij: "i < j" "j < length tr" and n: "n \<in> set (tr ! i)"
  note inv = Run_invariant [OF r]
  have "tr ! i \<in> set tr" using ij by simp
  with inv n show "Name n \<in> killedNodes k'" by blast
next
  assume r: "Run pf k inps = (k', tr)" and ij: "i < j" "j < length tr" and n: "n \<in> set (tr ! i)"
  note inv = Run_invariant [OF r]
  from inv ij have "Name ` set (tr ! i) \<inter> Name ` set (tr ! j) = {}" by blast
  with n show "\<forall>m \<in> set (tr ! j). Name m \<noteq> Name n" by blast
qed

text \<open>
  C1 does not hold for every failure rate: for the rate \<open>-1\<close> and one eligible node \<open>numNodes\<close> is \<open>-1\<close>, the guard
  \<open>len(nodes) > numNodes\<close> holds and \<open>nodes[:-1]\<close> panics.
\<close>

theorem pickNodes_negative_rate_counterexample:
  "pickNodes \<lparr>fmul = (*), int_overflow = - (2 ^ 63)\<rparr>
      \<lparr>config = \<lparr>FailureRate = - 1\<rparr>, provider = ''gce'', killedNodes = {}\<rparr>
      \<lparr>allNodes = Inr [\<lparr>Name = ''n1''\<rparr>], prometheusPods = Inr [], draw = (\<lambda>i. 0)\<rparr>
     = Inl (RuntimePanic ''slice bounds out of range'') \<and>
   \<not> (\<exists>sel. pickNodes \<lparr>fmul = (*), int_overflow = - (2 ^ 63)\<rparr>
      \<lparr>config = \<lparr>FailureRate = - 1\<rparr>, provider = ''gce'', killedNodes = {}\<rparr>
      \<lparr>allNodes = Inr [\<lparr>Name = ''n1''\<rparr>], prometheusPods = Inr [], draw = (\<lambda>i. 0)\<rparr> = Inr sel \<and>
      int (length sel) = min (int (length [\<lparr>Name = ''n1''\<rparr>])) \<lfloor>(- 1 :: rat) * of_nat (length [\<lparr>Name = ''n1''\<rparr>])\<rfloor>)"
  by (simp add: pickNodes_def eligible_def nodesHasPrometheusPod_def Shuffle_def
        float64_to_int_def truncate_rat_def)

theorem pickNodes_count_witness:
  "\<exists>sel. pickNodes \<lparr>fmul = (*), int_overflow = - (2 ^ 63)\<rparr>
      \<lparr>config = \<lparr>FailureRate = 1 / 2\<rparr>, provider = ''gce'', killedNodes = {''n2''}\<rparr>
      \<lparr>allNodes = Inr [\<lparr>Name = ''n1''\<rparr>, \<lparr>Name = ''n2''\<rparr>, \<lparr>Name = ''n3''\<rparr>, \<lparr>Name = ''n4''\<rparr>, \<lparr>Name = ''n5''\<rparr>],
        prometheusPods = Inr [\<lparr>NodeName = ''n1''\<rparr>, \<lparr>NodeName = ''''\<rparr>], draw = (\<lambda>i. 0)\<rparr> = Inr sel \<and>
     int (length sel) = 1 \<and>
     mset sel \<subseteq># mset [\<lparr>Name = ''n3''\<rparr>, \<lparr>Name = ''n4''\<rparr>, \<lparr>Name = ''n5''\<rparr>]"
  using pickNodes_count [of
      "\<lparr>allNodes = Inr [\<lparr>Name = ''n1''\<rparr>, \<lparr>Name = ''n2''\<rparr>, \<lparr>Name = ''n3''\<rparr>, \<lparr>Name = ''n4''\<rparr>, \<lparr>Name = ''n5''\<rparr>],
        prometheusPods = Inr [\<lparr>NodeName = ''n1''\<rparr>, \<lparr>NodeName = ''''\<rparr>], draw = (\<lambda>i. 0)\<rparr>"
      "[\<lparr>Name = ''n1''\<rparr>, \<lparr>Name = ''n2''\<rparr>, \<lparr>Name = ''n3''\<rparr>, \<lparr>Name = ''n4''\<rparr>, \<lparr>Name = ''n5''\<rparr>]"
      "[\<lparr>NodeName = ''n1''\<rparr>, \<lparr>NodeName = ''''\<rparr>]"
      "[\<lparr>Name = ''n3''\<rparr>, \<lparr>Name = ''n4''\<rparr>, \<lparr>Name = ''n5''\<rparr>]"
      "\<lparr>config = \<lparr>FailureRate = 1 / 2\<rparr>, provider = ''gce'', killedNodes = {''n2''}\<rparr>"
      "\<lparr>fmul = (*), int_overflow = - (2 ^ 63)\<rparr>"]
  by (simp add: hosts_monitoring_pod_def floor_rat_divide_numeral) blast

theorem Run_never_reselects_witness:
  "Run \<lparr>fmul = (*), int_overflow = - (2 ^ 63)\<rparr>
      \<lparr>config = \<lparr>FailureRate = 1 / 2\<rparr>, provider = ''gce'', killedNodes = {}\<rparr>
      [\<lparr>allNodes = Inr [\<lparr>Name = ''a''\<rparr>, \<lparr>Name = ''b''\<rparr>, \<lparr>Name = ''c''\<rparr>], prometheusPods = Inr [], draw = (\<lambda>i. 0)\<rparr>,
       \<lparr>allNodes = Inr [\<lparr>Name = ''a''\<rparr>, \<lparr>Name = ''b''\<rparr>, \<lparr>Name = ''c''\<rparr>], prometheusPods = Inr [], draw = (\<lambda>i. 0)\<rparr>]
     = (\<lparr>config = \<lparr>FailureRate = 1 / 2\<rparr>, provider = ''gce'', killedNodes = {''c'', ''b''}\<rparr>,
        [[\<lparr>Name = ''b''\<rparr>], [\<lparr>Name = ''c''\<rparr>]]) \<and>
   Name \<lparr>Name = ''b''\<rparr> \<in> {''c'', ''b''} \<and>
   Name \<lparr>Name = ''c''\<rparr> \<noteq> Name \<lparr>Name = ''b''\<rparr>"
proof -
  have r: "Run \<lparr>fmul = (*), int_overflow = - (2 ^ 63)\<rparr>
      \<lparr>config = \<lparr>FailureRate = 1 / 2\<rparr>, provider = ''gce'', killedNodes = {}\<rparr>
      [\<lparr>allNodes = Inr [\<lparr>Name = ''a''\<rparr>, \<lparr>Name = ''b''\<rparr>, \<lparr>Name = ''c''\<rparr>], prometheusPods = Inr [], draw = (\<lambda>i. 0)\<rparr>,
       \<lparr>allNodes = Inr [\<lparr>Name = ''a''\<rparr>, \<lparr>Name = ''b''\<rparr>, \<lparr>Name = ''c''\<rparr>], prometheusPods = Inr [], draw = (\<lambda>i. 0)\<rparr>]
     = (\<lparr>config = \<lparr>FailureRate = 1 / 2\<rparr>, provider = ''gce'', killedNodes = {''c'', ''b''}\<rparr>,
        [[\<lparr>Name = ''b''\<rparr>], [\<lparr>Name = ''c''\<rparr>]])"
    by (simp add: pickNodes_def eligible_def nodesHasPrometheusPod_def Shuffle_def swap_nodes_def
        float64_to_int_def truncate_rat_def kill_def floor_rat_divide_numeral)
  have "Name \<lparr>Name = ''b''\<rparr> \<in> {''c'', ''b''} \<and>
        (\<forall>m \<in> set [\<lparr>Name = ''c''\<rparr>]. Name m \<noteq> Name \<lparr>Name = ''b''\<rparr>)"
    using Run_never_reselects [where i = 0 and j = 1 and n = "\<lparr>Name = ''b''\<rparr>"] r
    by simp
  with r show ?thesis by simp
qed


section \<open>Proofs: percentiles and the scheduling-throughput measurement\<close>

lemma perc_index_range:
  assumes "0 < n" "0 < p" "p \<le> 100"
  shows "0 \<le> perc_index n p \<and> perc_index n p < int n"
proof -
  let ?q = "(of_nat (n * p) :: rat) / 100"
  have pos: "0 < ?q" using assms by simp
  then have "0 < \<lceil>?q\<rceil>" by (simp add: less_ceiling_iff)
  then have lo: "0 \<le> perc_index n p" by (simp add: perc_index_def)
  have "n * p \<le> n * 100" using assms(3) by simp
  then have "(of_nat (n * p) :: rat) \<le> of_nat (n * 100)" by (simp only: of_nat_le_iff)
  then have "?q \<le> of_int (int n)" by simp
  then have "\<lceil>?q\<rceil> \<le> int n" by (simp only: ceiling_le_iff)
  then have hi: "perc_index n p < int n" by (simp add: perc_index_def)
  from lo hi show ?thesis by simp
qed

lemma percentile_unclamped:
  assumes "vs \<noteq> []" "0 < p" "p \<le> 100"
  shows "percentile p vs = Some (sort vs ! nat (perc_index (length vs) p))"
proof -
  let ?n = "length vs"
  have n: "0 < ?n" using assms(1) by simp
  have eq: "\<lceil>(of_nat p * of_int (int ?n) :: rat) / 100\<rceil> - 1 = perc_index ?n p"
    by (simp add: perc_index_def mult.commute)
  from perc_index_range [OF n assms(2,3)]
  have "max 0 (min (int ?n - 1) (perc_index ?n p)) = perc_index ?n p" by simp
  with assms(1) eq show ?thesis by (simp add: percentile_def Let_def)
qed

lemma index_at_perc:
  assumes "xs \<noteq> []" "0 < p" "p \<le> 100" "length ys = length xs"
  shows "index_at ys (perc_index (length xs) p) = Inr (ys ! nat (perc_index (length xs) p))"
  using perc_index_range [of "length xs" p] assms by (simp add: index_at_def)

lemma throughputSummary_nonempty:
  assumes "xs \<noteq> []"
  shows "throughputSummary xs =
    (sort xs, Inr \<lparr>Average = fold (\<lambda>x acc. acc + x) (sort xs) 0 / of_nat (length xs),
        Perc50 = sort xs ! nat (perc_index (length xs) 50),
        Perc90 = sort xs ! nat (perc_index (length xs) 90),
        Perc99 = sort xs ! nat (perc_index (length xs) 99)\<rparr>)"
proof -
  have i50: "index_at (sort xs) (perc_index (length xs) 50) = Inr (sort xs ! nat (perc_index (length xs) 50))"
    by (rule index_at_perc [OF assms]) simp_all
  have i90: "index_at (sort xs) (perc_index (length xs) 90) = Inr (sort xs ! nat (perc_index (length xs) 90))"
    by (rule index_at_perc [OF assms]) simp_all
  have i99: "index_at (sort xs) (perc_index (length xs) 99) = Inr (sort xs ! nat (perc_index (length xs) 99))"
    by (rule index_at_perc [OF assms]) simp_all
  show ?thesis using assms by (simp add: throughputSummary_def Let_def i50 i90 i99)
qed

lemma sorted_last_Max:
  fixes xs :: "'a::linorder list"
  assumes "sorted xs" "xs \<noteq> []"
  shows "xs ! (length xs - 1) = Max (set xs)"
proof (rule sym, rule Max_eqI)
  show "finite (set xs)" by simp
next
  fix y assume "y \<in> set xs"
  then obtain i where i: "i < length xs" "xs ! i = y" by (auto simp: in_set_conv_nth)
  then have "xs ! i \<le> xs ! (length xs - 1)"
    using assms(1) by (intro sorted_nth_mono) auto
  with i show "y \<le> xs ! (length xs - 1)" by simp
next
  show "xs ! (length xs - 1) \<in> set xs" using assms(2) by simp
qed

lemma perc_index_100: "perc_index n 100 = int n - 1"
  by (simp add: perc_index_def)

lemma percentile_100_Max:
  fixes vs :: "'a::linorder list"
  assumes "vs \<noteq> []"
  shows "percentile 100 vs = Some (Max (set vs))"
proof -
  have "percentile 100 vs = Some (sort vs ! nat (perc_index (length vs) 100))"
    by (rule percentile_unclamped [OF assms]) simp_all
  also have "nat (perc_index (length vs) 100) = length (sort vs) - 1"
    by (simp add: perc_index_100)
  also have "sort vs ! (length (sort vs) - 1) = Max (set (sort vs))"
    using assms by (intro sorted_last_Max) (simp_all flip: length_greater_0_conv)
  finally show ?thesis by simp
qed

lemma percentile_50_example: "percentile 50 [1, 2, 3, 4 :: int] = Some 2"
  by (simp add: percentile_def Let_def)

lemma ceiling_rat_divide_numeral:
  "\<lceil>(numeral a :: rat) / numeral b\<rceil> = - (- numeral a div numeral b)"
  using ceiling_divide_eq_div [of "numeral a" "numeral b", where ?'a = rat] by simp

lemma gather_running:
  assumes "isRunning s" "schedulingThroughputs s \<noteq> []"
    and "snd (throughputSummary (schedulingThroughputs s)) = Inr sm"
  shows "snd (gather env s) =
     (case tp_PrettyPrintJSON env sm of
        Inl err \<Rightarrow> ([], Some err)
      | Inr content \<Rightarrow> ([CreateSummary ''SchedulingThroughput'' ''json'' content], None))"
proof -
  have st: "schedulingThroughputs (stop s) = schedulingThroughputs s"
    by (simp add: stop_def)
  obtain sorted where ts: "throughputSummary (schedulingThroughputs s) = (sorted, Inr sm)"
    using assms(3) by (cases "throughputSummary (schedulingThroughputs s)") simp
  show ?thesis
    using assms(1) by (simp add: gather_def Let_def st ts split: sum.splits)
qed

lemma decimal_50: "decimal 50 = ''50''" by (simp add: decimal.simps)
lemma decimal_90: "decimal 90 = ''90''" by (simp add: decimal.simps)
lemma decimal_99: "decimal 99 = ''99''" by (simp add: decimal.simps)
lemma decimal_100: "decimal 100 = ''100''" by (simp add: decimal.simps)

lemma summarize_requested:
  "summarize samples [50, 90, 99, 100] =
     [''50'' \<mapsto> percentile_entries 50 samples, ''90'' \<mapsto> percentile_entries 90 samples,
      ''99'' \<mapsto> percentile_entries 99 samples, ''100'' \<mapsto> percentile_entries 100 samples]"
  by (rule ext) (simp add: summarize_def decimal_50 decimal_90 decimal_99 decimal_100)

lemma Get_summarize:
  "Get (summarize samples [50, 90, 99, 100]) ''50'' = percentile_entries 50 samples"
  "Get (summarize samples [50, 90, 99, 100]) ''90'' = percentile_entries 90 samples"
  "Get (summarize samples [50, 90, 99, 100]) ''99'' = percentile_entries 99 samples"
  "Get (summarize samples [50, 90, 99, 100]) ''100'' = percentile_entries 100 samples"
  by (simp_all add: summarize_requested Get_def)

lemma percentile_entries_by_rule:
  assumes "cs \<in> set (percentile_entries p samples)"
  shows "Name_cs cs \<in> fst ` set samples \<and>
         Some (Cpu cs) = percentile p (cpu_series (Name_cs cs) samples) \<and>
         Some (Mem cs) = percentile p (mem_series (Name_cs cs) samples)"
proof -
  from assms obtain c where c: "c \<in> fst ` set samples"
    and m: "cs \<in> set (case percentile p (cpu_series c samples) of
          None \<Rightarrow> []
        | Some cpu \<Rightarrow>
           (case percentile p (mem_series c samples) of
              None \<Rightarrow> []
            | Some mem \<Rightarrow> [\<lparr>Name_cs = c, Cpu = cpu, Mem = mem\<rparr>]))"
    unfolding percentile_entries_def by auto
  from m have n: "Name_cs cs = c" by (auto split: option.splits)
  from m have "Some (Cpu cs) = percentile p (cpu_series c samples) \<and>
      Some (Mem cs) = percentile p (mem_series c samples)"
    by (auto split: option.splits)
  with c n show ?thesis by simp
qed

lemma series_nonempty:
  assumes "c \<in> fst ` set samples"
  shows "cpu_series c samples \<noteq> []" "mem_series c samples \<noteq> []"
  using assms by (auto simp: cpu_series_def mem_series_def filter_empty_conv)

lemma percentile_Some:
  "vs \<noteq> [] \<Longrightarrow> \<exists>v. percentile p vs = Some v"
  by (simp add: percentile_def Let_def)

lemma percentile_entries_complete:
  assumes "c \<in> fst ` set samples"
  shows "\<exists>cs \<in> set (percentile_entries p samples). Name_cs cs = c"
proof -
  obtain cpu where cpu: "percentile p (cpu_series c samples) = Some cpu"
    using percentile_Some [OF series_nonempty(1) [OF assms]] by blast
  obtain mem where mem: "percentile p (mem_series c samples) = Some mem"
    using percentile_Some [OF series_nonempty(2) [OF assms]] by blast
  have "\<lparr>Name_cs = c, Cpu = cpu, Mem = mem\<rparr> \<in> set (percentile_entries p samples)"
    using assms cpu mem by (force simp: percentile_entries_def)
  then show ?thesis by force
qed

lemma percentile_entries_100:
  assumes "cs \<in> set (percentile_entries 100 samples)"
  shows "Cpu cs = Max (set (cpu_series (Name_cs cs) samples)) \<and>
         Mem cs = Max (set (mem_series (Name_cs cs) samples))"
proof -
  note r = percentile_entries_by_rule [OF assms]
  from r have c: "Name_cs cs \<in> fst ` set samples" by simp
  from r percentile_100_Max [OF series_nonempty(1) [OF c]]
       percentile_100_Max [OF series_nonempty(2) [OF c]]
  show ?thesis by simp
qed

lemma gather_usage_spec_gatherer:
  assumes "gatherer e = Some (spec_gatherer samples)"
  shows "snd (gather_usage env e) =
     (case ru_PrettyPrintJSON env (summarize samples [50, 90, 99, 100]) of
        Inl err \<Rightarrow> ([], Some err)
      | Inr content \<Rightarrow>
         (case verifySummary (resourceConstraints e) (summarize samples [50, 90, 99, 100]) of
            Inl panic \<Rightarrow> ([], Some panic)
          | Inr err \<Rightarrow> ([CreateSummary ''ResourceUsageSummary'' ''json'' content], err)))"
  using assms by (simp add: gather_usage_def spec_gatherer_def split: sum.splits)


lemma throughput_example:
  "\<exists>sm. snd (throughputSummary [1, 2, 3, 4]) = Inr sm \<and> Perc50 sm = 2"
  by (simp add: throughputSummary_def Let_def index_at_def perc_index_def
      ceiling_rat_divide_numeral)

lemma decimal_requested:
  assumes "p \<in> {50, 90, 99, 100}"
  shows "Get (summarize samples [50, 90, 99, 100]) (decimal p) = percentile_entries p samples"
  using assms by (auto simp: Get_summarize decimal_50 decimal_90 decimal_99 decimal_100)


text \<open>
  C3. The percentile rule of the specification (values sorted ascending, element at index
  \<open>ceil(p * n / 100) - 1\<close> clamped to \<open>[0, n - 1]\<close>) gives the maximum for \<open>p = 100\<close>
  on every non-empty list and \<open>2\<close> for \<open>p = 50\<close> on \<open>[1, 2, 3, 4]\<close>, which is also the
  50th percentile that the code of the scheduling-throughput measurement computes on that
  series. The \<open>gather\<close> of a running scheduling-throughput measurement with a non-empty
  series puts into its payload, as 50th, 90th and 99th percentile, the values this rule
  gives on the recorded series, without a panic, and returns that payload's summary. For
  resource usage, whose percentile computation is modelled from the specification: for
  each of the four percentiles that \<open>gather\<close> requests, the summary holds an entry for
  every container that has samples, each entry holds the values the rule gives on the CPU
  and on the memory samples of its container, the entries of the 100th percentile hold
  the maxima, and this summary is the one that \<open>gather\<close> of the resource-usage
  measurement prints and verifies.
\<close>

theorem percentile_rule:
  fixes ws :: "'a::linorder list"
  shows
  "(ws \<noteq> [] \<longrightarrow> percentile 100 ws = Some (Max (set ws))) \<and>
   percentile 50 [1, 2, 3, 4 :: int] = Some 2 \<and>
   (\<exists>sm. snd (throughputSummary [1, 2, 3, 4]) = Inr sm \<and> Perc50 sm = 2) \<and>
   (isRunning s \<longrightarrow> schedulingThroughputs s \<noteq> [] \<longrightarrow>
      (\<exists>sm. snd (throughputSummary (schedulingThroughputs s)) = Inr sm \<and>
         Some (Perc50 sm) = percentile 50 (schedulingThroughputs s) \<and>
         Some (Perc90 sm) = percentile 90 (schedulingThroughputs s) \<and>
         Some (Perc99 sm) = percentile 99 (schedulingThroughputs s) \<and>
         snd (gather env s) =
           (case tp_PrettyPrintJSON env sm of
              Inl err \<Rightarrow> ([], Some err)
            | Inr content \<Rightarrow> ([CreateSummary ''SchedulingThroughput'' ''json'' content], None)))) \<and>
   (\<forall>p \<in> {50, 90, 99, 100}.
      (\<forall>c \<in> fst ` set samples.
         \<exists>cs \<in> set (Get (summarize samples [50, 90, 99, 100]) (decimal p)). Name_cs cs = c) \<and>
      (\<forall>cs \<in> set (Get (summarize samples [50, 90, 99, 100]) (decimal p)).
         Some (Cpu cs) = percentile p (cpu_series (Name_cs cs) samples) \<and>
         Some (Mem cs) = percentile p (mem_series (Name_cs cs) samples))) \<and>
   (\<forall>cs \<in> set (Get (summarize samples [50, 90, 99, 100]) (decimal 100)).
      Cpu cs = Max (set (cpu_series (Name_cs cs) samples)) \<and>
      Mem cs = Max (set (mem_series (Name_cs cs) samples))) \<and>
   (gatherer e = Some (spec_gatherer samples) \<longrightarrow>
      snd (gather_usage uenv e) =
        (case ru_PrettyPrintJSON uenv (summarize samples [50, 90, 99, 100]) of
           Inl err \<Rightarrow> ([], Some err)
         | Inr content \<Rightarrow>
            (case verifySummary (resourceConstraints e) (summarize samples [50, 90, 99, 100]) of
               Inl panic \<Rightarrow> ([], Some panic)
             | Inr err \<Rightarrow> ([CreateSummary ''ResourceUsageSummary'' ''json'' content], err))))"
  (is "?A \<and> ?B \<and> ?C \<and> ?D \<and> ?E \<and> ?F \<and> ?G")
proof -
  have a: ?A using percentile_100_Max by blast
  have b: ?B by (rule percentile_50_example)
  have c: ?C by (rule throughput_example)
  have d: ?D
  proof (intro impI)
    assume run: "isRunning s" and ne: "schedulingThroughputs s \<noteq> []"
    let ?xs = "schedulingThroughputs s"
    let ?sm = "\<lparr>Average = fold (\<lambda>x acc. acc + x) (sort ?xs) 0 / of_nat (length ?xs),
          Perc50 = sort ?xs ! nat (perc_index (length ?xs) 50),
          Perc90 = sort ?xs ! nat (perc_index (length ?xs) 90),
          Perc99 = sort ?xs ! nat (perc_index (length ?xs) 99)\<rparr>"
    have ts: "snd (throughputSummary ?xs) = Inr ?sm"
      by (simp add: throughputSummary_nonempty [OF ne])
    have p50: "Some (Perc50 ?sm) = percentile 50 ?xs"
      by (simp add: percentile_unclamped [OF ne])
    have p90: "Some (Perc90 ?sm) = percentile 90 ?xs"
      by (simp add: percentile_unclamped [OF ne])
    have p99: "Some (Perc99 ?sm) = percentile 99 ?xs"
      by (simp add: percentile_unclamped [OF ne])
    note g = gather_running [OF run ne ts, of env]
    from ts p50 p90 p99 g
    show "\<exists>sm. snd (throughputSummary ?xs) = Inr sm \<and>
           Some (Perc50 sm) = percentile 50 ?xs \<and>
           Some (Perc90 sm) = percentile 90 ?xs \<and>
           Some (Perc99 sm) = percentile 99 ?xs \<and>
           snd (gather env s) =
             (case tp_PrettyPrintJSON env sm of
                Inl err \<Rightarrow> ([], Some err)
              | Inr content \<Rightarrow> ([CreateSummary ''SchedulingThroughput'' ''json'' content], None))"
      by blast
  qed
  have e: ?E
  proof (intro ballI conjI)
    fix p :: nat and c
    assume p: "p \<in> {50, 90, 99, 100}" and c: "c \<in> fst ` set samples"
    show "\<exists>cs \<in> set (Get (summarize samples [50, 90, 99, 100]) (decimal p)). Name_cs cs = c"
      unfolding decimal_requested [OF p] by (rule percentile_entries_complete [OF c])
  next
    fix p :: nat and cs
    assume p: "p \<in> {50, 90, 99, 100}"
      and cs: "cs \<in> set (Get (summarize samples [50, 90, 99, 100]) (decimal p))"
    from cs have "cs \<in> set (percentile_entries p samples)"
      unfolding decimal_requested [OF p] .
    from percentile_entries_by_rule [OF this]
    show "Some (Cpu cs) = percentile p (cpu_series (Name_cs cs) samples)"
      and "Some (Mem cs) = percentile p (mem_series (Name_cs cs) samples)"
      by simp_all
  qed
  have f: ?F
  proof (intro ballI)
    fix cs
    assume "cs \<in> set (Get (summarize samples [50, 90, 99, 100]) (decimal 100))"
    then have "cs \<in> set (percentile_entries 100 samples)"
      by (simp add: decimal_100 Get_summarize)
    then show "Cpu cs = Max (set (cpu_series (Name_cs cs) samples)) \<and>
               Mem cs = Max (set (mem_series (Name_cs cs) samples))"
      by (rule percentile_entries_100)
  qed
  have g: ?G using gather_usage_spec_gatherer by blast
  from a b c d e f g show ?thesis by blast
qed


theorem percentile_rule_witness:
  "percentile 100 [4, 1, 3, 2 :: rat] = Some 4 \<and>
   (\<exists>sm. snd (throughputSummary [4, 1, 3, 2]) = Inr sm \<and>
      Perc50 sm = 2 \<and> Perc90 sm = 4 \<and> Perc99 sm = 4 \<and>
      percentile 50 [4, 1, 3, 2 :: rat] = Some 2 \<and>
      percentile 90 [4, 1, 3, 2 :: rat] = Some 4 \<and>
      percentile 99 [4, 1, 3, 2 :: rat] = Some 4 \<and>
      snd (gather \<lparr>tp_action = Inr ''gather'', tp_selector_parse = None, tp_NewPodStore = None,
                    tp_PrettyPrintJSON = (\<lambda>sm. Inr ''json'')\<rparr>
             \<lparr>schedulingThroughputs = [4, 1, 3, 2], isRunning = True, stopCh = OpenChan\<rparr>)
        = ([CreateSummary ''SchedulingThroughput'' ''json'' ''json''], None)) \<and>
   Get (summarize example_samples [50, 90, 99, 100]) (decimal 50) =
     [\<lparr>Name_cs = ''p/c'', Cpu = 2, Mem = 20\<rparr>, \<lparr>Name_cs = ''q/d'', Cpu = 5, Mem = 50\<rparr>] \<and>
   Get (summarize example_samples [50, 90, 99, 100]) (decimal 100) =
     [\<lparr>Name_cs = ''p/c'', Cpu = 3, Mem = 30\<rparr>, \<lparr>Name_cs = ''q/d'', Cpu = 5, Mem = 50\<rparr>] \<and>
   Max (set (cpu_series ''p/c'' example_samples)) = 3 \<and>
   Max (set (mem_series ''p/c'' example_samples)) = 30 \<and>
   snd (gather_usage (example_usage_env ''gather'')
          \<lparr>gatherer = Some (spec_gatherer example_samples), resourceConstraints = Map.empty\<rparr>)
     = ([CreateSummary ''ResourceUsageSummary'' ''json'' ''{}''], None)"
proof -
  have p50: "percentile 50 [4, 1, 3, 2 :: rat] = Some 2"
    by (simp add: percentile_def Let_def ceiling_rat_divide_numeral)
  have p90: "percentile 90 [4, 1, 3, 2 :: rat] = Some 4"
    by (simp add: percentile_def Let_def ceiling_rat_divide_numeral)
  have p99: "percentile 99 [4, 1, 3, 2 :: rat] = Some 4"
    by (simp add: percentile_def Let_def ceiling_rat_divide_numeral)
  have e50: "percentile_entries 50 example_samples =
      [\<lparr>Name_cs = ''p/c'', Cpu = 2, Mem = 20\<rparr>, \<lparr>Name_cs = ''q/d'', Cpu = 5, Mem = 50\<rparr>]"
    by (simp add: example_samples_def percentile_entries_def cpu_series_def mem_series_def
        percentile_def Let_def ceiling_rat_divide_numeral)
  have e99: "percentile_entries 99 example_samples =
      [\<lparr>Name_cs = ''p/c'', Cpu = 3, Mem = 30\<rparr>, \<lparr>Name_cs = ''q/d'', Cpu = 5, Mem = 50\<rparr>]"
    by (simp add: example_samples_def percentile_entries_def cpu_series_def mem_series_def
        percentile_def Let_def ceiling_rat_divide_numeral)
  have e100: "percentile_entries 100 example_samples =
      [\<lparr>Name_cs = ''p/c'', Cpu = 3, Mem = 30\<rparr>, \<lparr>Name_cs = ''q/d'', Cpu = 5, Mem = 50\<rparr>]"
    by (simp add: example_samples_def percentile_entries_def cpu_series_def mem_series_def
        percentile_def Let_def ceiling_rat_divide_numeral)
  have v: "verifySummary Map.empty (summarize example_samples [50, 90, 99, 100]) = Inr None"
    by (simp add: verifySummary_def Get_summarize e99 index_at_def)
  have mx: "Max (set (cpu_series ''p/c'' example_samples)) = 3"
      "Max (set (mem_series ''p/c'' example_samples)) = 30"
    by (simp_all add: example_samples_def cpu_series_def mem_series_def)
  show ?thesis
    using percentile_rule [of "[4, 1, 3, 2 :: rat]"
        "\<lparr>schedulingThroughputs = [4, 1, 3, 2], isRunning = True, stopCh = OpenChan\<rparr>"
        "\<lparr>tp_action = Inr ''gather'', tp_selector_parse = None, tp_NewPodStore = None,
          tp_PrettyPrintJSON = (\<lambda>sm. Inr ''json'')\<rparr>"
        example_samples
        "\<lparr>gatherer = Some (spec_gatherer example_samples), resourceConstraints = Map.empty\<rparr>"
        "example_usage_env ''gather''"]
    by (simp add: p50 p90 p99 decimal_50 decimal_100 Get_summarize e50 e100 mx v
        example_usage_env_def)
qed


section \<open>Proofs: waiting for pods\<close>

lemma wait_loop_success_iff:
  "wait_loop compute options st evs = Some None \<longleftrightarrow>
     (\<exists>pss pods rest. evs = map Poll pss @ Poll pods # rest \<and>
        (\<forall>ps \<in> set pss. \<not> converged ps (compute ps (DesiredPodCount options)) (DesiredPodCount options)) \<and>
        converged pods (compute pods (DesiredPodCount options)) (DesiredPodCount options))"
  (is "?L st evs \<longleftrightarrow> ?R evs")
proof (induction evs arbitrary: st)
  case Nil
  show ?case by simp
next
  case (Cons ev evs)
  show ?case
  proof (cases ev)
    case StopClosed
    have "\<not> ?R (ev # evs)"
      unfolding StopClosed by (auto simp: Cons_eq_append_conv)
    then show ?thesis by (simp add: StopClosed)
  next
    case (Poll pods0)
    let ?d = "DesiredPodCount options"
    show ?thesis
    proof (cases "converged pods0 (compute pods0 ?d) ?d")
      case True
      have "?R (ev # evs)"
        by (rule exI [of _ "[]"], rule exI [of _ pods0], rule exI [of _ evs])
           (simp add: Poll True)
      moreover have "?L st (ev # evs)" using True by (simp add: Poll converged_def Let_def)
      ultimately show ?thesis by simp
    next
      case False
      have L: "?L st (ev # evs) \<longleftrightarrow> ?L (compute pods0 ?d) evs"
        using False by (auto simp: Poll converged_def Let_def)
      have R: "?R (ev # evs) \<longleftrightarrow> ?R evs"
      proof
        assume "?R (ev # evs)"
        then obtain pss pods rest where e: "ev # evs = map Poll pss @ Poll pods # rest"
          and n: "\<forall>ps \<in> set pss. \<not> converged ps (compute ps ?d) ?d"
          and c: "converged pods (compute pods ?d) ?d" by blast
        show "?R evs"
        proof (cases pss)
          case Nil
          with e Poll have "pods = pods0" by simp
          with c False show ?thesis by simp
        next
          case (Cons ps0 pss')
          with e have "evs = map Poll pss' @ Poll pods # rest" by simp
          moreover from n Cons have "\<forall>ps \<in> set pss'. \<not> converged ps (compute ps ?d) ?d" by simp
          ultimately show ?thesis using c
            by (intro exI [of _ pss'] exI [of _ pods] exI [of _ rest]) simp
        qed
      next
        assume "?R evs"
        then obtain pss pods rest where e: "evs = map Poll pss @ Poll pods # rest"
          and n: "\<forall>ps \<in> set pss. \<not> converged ps (compute ps ?d) ?d"
          and c: "converged pods (compute pods ?d) ?d" by blast
        have "ev # evs = map Poll (pods0 # pss) @ Poll pods # rest" by (simp add: e Poll)
        moreover have "\<forall>ps \<in> set (pods0 # pss). \<not> converged ps (compute ps ?d) ?d"
          using n False by simp
        ultimately show "?R (ev # evs)" using c
          by (intro exI [of _ "pods0 # pss"] exI [of _ pods] exI [of _ rest]) simp
      qed
      show ?thesis unfolding L R by (rule Cons.IH)
    qed
  qed
qed

lemma wait_loop_timeout:
  assumes "\<forall>ps \<in> set pss. \<not> converged ps (compute ps (DesiredPodCount options)) (DesiredPodCount options)"
  shows "wait_loop compute options st (map Poll pss @ StopClosed # rest) =
     Some (Some (WaitTimeout (DesiredPodCount options)
        (Namespace (Selector options)) (LabelSelector (Selector options))
        (FieldSelector (Selector options))
        (Running (if pss = [] then st else compute (last pss) (DesiredPodCount options)))))"
  using assms
proof (induction pss arbitrary: st)
  case Nil
  show ?case by simp
next
  case (Cons ps pss)
  then show ?case by (auto simp: converged_def Let_def)
qed

text \<open>
  C4. \<open>WaitForPods\<close> returns \<open>nil\<close> if and only if the pod store was created and, at
  one of its polls (every poll before it missed the condition and the stop channel was
  not chosen before it), the number of running pods equals the desired count and running
  plus inactive equals the number of pods listed. If the stop channel closes first, it
  returns the timeout error, which carries the desired count, the selector and the
  running count of the last poll (the zero value of \<open>podsStatus\<close> when no poll took
  place).
\<close>

theorem WaitForPods_result:
  "(WaitForPods compute store options evs = Some None \<longleftrightarrow>
      (\<exists>oldPods pss pods rest. store = Inr oldPods \<and> evs = map Poll pss @ Poll pods # rest \<and>
         (\<forall>ps \<in> set pss.
            \<not> converged ps (compute ps (DesiredPodCount options)) (DesiredPodCount options)) \<and>
         converged pods (compute pods (DesiredPodCount options)) (DesiredPodCount options))) \<and>
   (store = Inr oldPods \<longrightarrow> evs = map Poll pss @ StopClosed # rest \<longrightarrow>
      (\<forall>ps \<in> set pss.
         \<not> converged ps (compute ps (DesiredPodCount options)) (DesiredPodCount options)) \<longrightarrow>
      WaitForPods compute store options evs =
        Some (Some (WaitTimeout (DesiredPodCount options)
          (Namespace (Selector options)) (LabelSelector (Selector options))
          (FieldSelector (Selector options))
          (if pss = [] then 0 else Running (compute (last pss) (DesiredPodCount options))))))"
proof (intro conjI impI)
  show "WaitForPods compute store options evs = Some None \<longleftrightarrow>
      (\<exists>oldPods pss pods rest. store = Inr oldPods \<and> evs = map Poll pss @ Poll pods # rest \<and>
         (\<forall>ps \<in> set pss.
            \<not> converged ps (compute ps (DesiredPodCount options)) (DesiredPodCount options)) \<and>
         converged pods (compute pods (DesiredPodCount options)) (DesiredPodCount options))"
  proof (cases store)
    case (Inl err)
    then show ?thesis by (simp add: WaitForPods_def)
  next
    case (Inr old)
    then show ?thesis
      by (simp add: WaitForPods_def wait_loop_success_iff [of compute options zero_status evs])
  qed
next
  assume "store = Inr oldPods" "evs = map Poll pss @ StopClosed # rest"
    and "\<forall>ps \<in> set pss.
         \<not> converged ps (compute ps (DesiredPodCount options)) (DesiredPodCount options)"
  then show "WaitForPods compute store options evs =
        Some (Some (WaitTimeout (DesiredPodCount options)
          (Namespace (Selector options)) (LabelSelector (Selector options))
          (FieldSelector (Selector options))
          (if pss = [] then 0 else Running (compute (last pss) (DesiredPodCount options)))))"
    using wait_loop_timeout [of pss compute options zero_status rest]
    by (simp add: WaitForPods_def zero_status_def split: if_splits)
qed

theorem WaitForPods_result_witness:
  "WaitForPods count_phases (Inr [''Pending''])
      \<lparr>Selector = \<lparr>Namespace = ''ns'', LabelSelector = ''app=a'', FieldSelector = ''''\<rparr>,
       DesiredPodCount = 2, EnableLogging = False, CallerName = ''test''\<rparr>
      [Poll [''Running'', ''Pending''], Poll [''Running'', ''Failed'', ''Running'']] = Some None \<and>
   WaitForPods count_phases (Inr [''Pending''])
      \<lparr>Selector = \<lparr>Namespace = ''ns'', LabelSelector = ''app=a'', FieldSelector = ''''\<rparr>,
       DesiredPodCount = 2, EnableLogging = False, CallerName = ''test''\<rparr>
      [Poll [''Running'', ''Pending''], StopClosed] =
     Some (Some (WaitTimeout 2 ''ns'' ''app=a'' '''' 1))"
proof -
  let ?o = "\<lparr>Selector = \<lparr>Namespace = ''ns'', LabelSelector = ''app=a'', FieldSelector = ''''\<rparr>,
       DesiredPodCount = 2, EnableLogging = False, CallerName = ''test''\<rparr>"
  have a: "WaitForPods count_phases (Inr [''Pending'']) ?o
      [Poll [''Running'', ''Pending''], Poll [''Running'', ''Failed'', ''Running'']] = Some None"
    by (simp add: WaitForPods_def count_phases_def)
  have b: "WaitForPods count_phases (Inr [''Pending'']) ?o
      [Poll [''Running'', ''Pending''], StopClosed] =
     Some (Some (WaitTimeout 2 ''ns'' ''app=a'' '''' 1))"
    using WaitForPods_result [of count_phases "Inr [''Pending'']" ?o
        "[Poll [''Running'', ''Pending''], StopClosed]" "[''Pending'']"
        "[[''Running'', ''Pending'']]" "[]"]
    by (simp add: converged_def count_phases_def)
  from a b show ?thesis by simp
qed


section \<open>Proofs: thresholds and violations alongside the summary\<close>

text \<open>
  C7. For every grouping key, \<open>getSLOThreshold\<close> returns the resource threshold when
  the verb is not \<open>LIST\<close>, the cluster threshold when the verb is \<open>LIST\<close> and the scope
  is \<open>cluster\<close>, and the namespace threshold when the verb is \<open>LIST\<close> and the scope is
  anything else.
\<close>

theorem getSLOThreshold_selection:
  "(verb \<noteq> ''LIST'' \<longrightarrow> getSLOThreshold th verb scope = resourceThreshold th) \<and>
   (verb = ''LIST'' \<longrightarrow> scope = ''cluster'' \<longrightarrow> getSLOThreshold th verb scope = clusterThreshold th) \<and>
   (verb = ''LIST'' \<longrightarrow> scope \<noteq> ''cluster'' \<longrightarrow> getSLOThreshold th verb scope = namespaceThreshold th)"
  by (simp add: getSLOThreshold_def)

theorem getSLOThreshold_selection_witness:
  "getSLOThreshold \<lparr>resourceThreshold = 1000000000, clusterThreshold = 30000000000,
      namespaceThreshold = 5000000000\<rparr> ''GET'' ''cluster'' = 1000000000 \<and>
   getSLOThreshold \<lparr>resourceThreshold = 1000000000, clusterThreshold = 30000000000,
      namespaceThreshold = 5000000000\<rparr> ''LIST'' ''cluster'' = 30000000000 \<and>
   getSLOThreshold \<lparr>resourceThreshold = 1000000000, clusterThreshold = 30000000000,
      namespaceThreshold = 5000000000\<rparr> ''LIST'' ''namespace'' = 5000000000"
  using getSLOThreshold_selection [of "''GET''" "\<lparr>resourceThreshold = 1000000000,
          clusterThreshold = 30000000000, namespaceThreshold = 5000000000\<rparr>" "''cluster''"]
        getSLOThreshold_selection [of "''LIST''" "\<lparr>resourceThreshold = 1000000000,
          clusterThreshold = 30000000000, namespaceThreshold = 5000000000\<rparr>" "''cluster''"]
        getSLOThreshold_selection [of "''LIST''" "\<lparr>resourceThreshold = 1000000000,
          clusterThreshold = 30000000000, namespaceThreshold = 5000000000\<rparr>" "''namespace''"]
  by simp










section \<open>Proofs: resource constraints\<close>

lemma split_on_length: "sep \<in> set s \<Longrightarrow> 2 \<le> length (split_on sep s)"
proof (induction s)
  case Nil
  then show ?case by simp
next
  case (Cons c cs)
  show ?case
  proof (cases "c = sep")
    case True
    have "split_on sep cs \<noteq> []" by (cases cs) (auto split: list.splits)
    then show ?thesis using True by (cases "split_on sep cs") simp_all
  next
    case False
    with Cons.prems have "sep \<in> set cs" by simp
    then have "2 \<le> length (split_on sep cs)" by (rule Cons.IH)
    then show ?thesis using False by (cases "split_on sep cs") simp_all
  qed
qed

lemma index_at_containerName:
  assumes "CHR ''/'' \<in> set (Name_cs s)"
  shows "index_at (split_on CHR ''/'' (Name_cs s)) 1 = Inr (containerName s)"
  using split_on_length [OF assms] by (simp add: index_at_def containerName_def)

lemma violatedConstraints_messages:
  assumes "\<forall>s \<in> set summaries. CHR ''/'' \<in> set (Name_cs s)"
  shows "violatedConstraints constraints summaries violated =
     Inr (violated @ messages constraints summaries)"
  using assms
proof (induction summaries arbitrary: violated)
  case Nil
  show ?case by (simp add: messages_def)
next
  case (Cons s rest)
  have ix: "index_at (split_on CHR ''/'' (Name_cs s)) 1 = Inr (containerName s)"
    using Cons.prems by (simp add: index_at_containerName)
  have rest: "\<forall>s \<in> set rest. CHR ''/'' \<in> set (Name_cs s)" using Cons.prems by simp
  note IH = Cons.IH [OF rest]
  show ?case
  proof (cases "constraints (containerName s)")
    case None
    then show ?thesis by (simp add: ix IH messages_def)
  next
    case (Some c)
    then show ?thesis by (simp add: ix IH messages_def breaches_def Let_def)
  qed
qed

lemma verifySummary_messages:
  assumes "\<forall>s \<in> set (Get summary ''99''). CHR ''/'' \<in> set (Name_cs s)"
  shows "verifySummary constraints summary =
     Inr (if messages constraints (Get summary ''99'') = [] then None
          else Some (MetricViolationError ''resource constraints''
                 (messages constraints (Get summary ''99''))))"
  by (simp add: verifySummary_def violatedConstraints_messages [OF assms])

lemma subject_breaches: "v \<in> set (breaches c s) \<Longrightarrow> subject v = Name_cs s"
  by (auto simp: breaches_def split: if_splits)

lemma messages_subject:
  assumes "v \<in> set (messages constraints summaries)"
  shows "\<exists>s \<in> set summaries. \<exists>c. constraints (containerName s) = Some c \<and> subject v = Name_cs s"
proof -
  from assms obtain s where s: "s \<in> set summaries"
    and v: "v \<in> set (case constraints (containerName s) of None \<Rightarrow> [] | Some c \<Rightarrow> breaches c s)"
    by (auto simp: messages_def)
  then obtain c where c: "constraints (containerName s) = Some c" and "v \<in> set (breaches c s)"
    by (cases "constraints (containerName s)") auto
  then have "subject v = Name_cs s" by (simp add: subject_breaches)
  with s c show ?thesis by blast
qed

lemma unconfigured_never_reported:
  assumes "constraints (containerName s) = None" "v \<in> set (messages constraints summaries)"
  shows "subject v \<noteq> Name_cs s"
proof
  assume eq: "subject v = Name_cs s"
  from messages_subject [OF assms(2)] obtain s' c where
    "constraints (containerName s') = Some c" "subject v = Name_cs s'" by blast
  with eq have "constraints (containerName s) = Some c" by (simp add: containerName_def)
  with assms(1) show False by simp
qed

lemma MaxFloat64_nonzero: "MaxFloat64 \<noteq> 0"
  by (simp add: MaxFloat64_def)

lemma MaxUint64_nonzero: "MaxUint64 \<noteq> 0"
  by (simp add: MaxUint64_def)

lemma default_ceilings_fields:
  "CPUConstraint (default_ceilings c) = (if CPUConstraint c = 0 then MaxFloat64 else CPUConstraint c)"
  "MemoryConstraint (default_ceilings c) =
     (if MemoryConstraint c = 0 then MaxUint64 else MemoryConstraint c)"
  by (simp_all add: default_ceilings_def Let_def)

lemma default_ceilings_nonzero:
  "CPUConstraint (default_ceilings c) \<noteq> 0" "MemoryConstraint (default_ceilings c) \<noteq> 0"
  by (simp_all add: default_ceilings_fields MaxFloat64_nonzero MaxUint64_nonzero)

lemma start_usage_constraints:
  assumes "ru_provider env = Inr pv" "ru_host env = Inr h" "ru_nodeMode env = Inr nm"
    and "ru_constraintsPath env = Inr path" "path \<noteq> ''''"
    and "ru_TemplateInto env path (resourceConstraints e) = Inr loaded"
  shows "resourceConstraints (fst (start_usage env e)) = (\<lambda>name. map_option default_ceilings (loaded name))"
  using assms by (simp add: start_usage_def split: sum.splits)

lemma breach_reported:
  assumes "s \<in> set summaries" "constraints (containerName s) = Some c"
  shows "(Cpu s > CPUConstraint c \<longrightarrow>
            CPUViolation (Name_cs s) (Cpu s) (CPUConstraint c) \<in> set (messages constraints summaries)) \<and>
         (Mem s > MemoryConstraint c \<longrightarrow>
            MemoryViolation (Name_cs s) (to_MB (Mem s)) (to_MB (MemoryConstraint c))
              \<in> set (messages constraints summaries))"
proof -
  have "set (breaches c s) \<subseteq> set (messages constraints summaries)"
    using assms by (force simp: messages_def)
  then show ?thesis by (auto simp: breaches_def)
qed

text \<open>
  C6 (as amended). When \<open>start\<close> loads a constraint mapping, every loaded constraint is
  stored with a CPU ceiling of zero replaced by \<open>math.MaxFloat64\<close> and a memory ceiling of
  zero replaced by \<open>math.MaxUint64\<close>, so no stored ceiling is zero. \<open>verifySummary\<close>
  (on container names of the form \<open>pod/container\<close>) reports exactly the messages of the
  configured containers: a container without a constraint entry is the subject of no
  message, whatever its usage, and a configured container contributes one message for
  each ceiling it exceeds (so two when it exceeds both), naming the container, the
  observed value and the ceiling.
\<close>

theorem constraints_and_violations:
  "(ru_provider env = Inr pv \<longrightarrow> ru_host env = Inr h \<longrightarrow> ru_nodeMode env = Inr nm \<longrightarrow>
    ru_constraintsPath env = Inr path \<longrightarrow> path \<noteq> '''' \<longrightarrow>
    ru_TemplateInto env path (resourceConstraints e) = Inr loaded \<longrightarrow> loaded name = Some c \<longrightarrow>
      (\<exists>c'. resourceConstraints (fst (start_usage env e)) name = Some c' \<and>
         CPUConstraint c' = (if CPUConstraint c = 0 then MaxFloat64 else CPUConstraint c) \<and>
         MemoryConstraint c' = (if MemoryConstraint c = 0 then MaxUint64 else MemoryConstraint c) \<and>
         CPUConstraint c' \<noteq> 0 \<and> MemoryConstraint c' \<noteq> 0)) \<and>
   ((\<forall>s \<in> set (Get summary ''99''). CHR ''/'' \<in> set (Name_cs s)) \<longrightarrow>
      verifySummary constraints summary =
        Inr (if messages constraints (Get summary ''99'') = [] then None
             else Some (MetricViolationError ''resource constraints''
                    (messages constraints (Get summary ''99'')))) \<and>
      (\<forall>s. constraints (containerName s) = None \<longrightarrow>
         (\<forall>v \<in> set (messages constraints (Get summary ''99'')). subject v \<noteq> Name_cs s)) \<and>
      (\<forall>s \<in> set (Get summary ''99''). \<forall>k. constraints (containerName s) = Some k \<longrightarrow>
         (Cpu s > CPUConstraint k \<longrightarrow>
            CPUViolation (Name_cs s) (Cpu s) (CPUConstraint k)
              \<in> set (messages constraints (Get summary ''99''))) \<and>
         (Mem s > MemoryConstraint k \<longrightarrow>
            MemoryViolation (Name_cs s) (to_MB (Mem s)) (to_MB (MemoryConstraint k))
              \<in> set (messages constraints (Get summary ''99'')))))"
proof (intro conjI impI allI ballI)
  assume h: "ru_provider env = Inr pv" "ru_host env = Inr h" "ru_nodeMode env = Inr nm"
    "ru_constraintsPath env = Inr path" "path \<noteq> ''''"
    "ru_TemplateInto env path (resourceConstraints e) = Inr loaded"
    and l: "loaded name = Some c"
  from h have "resourceConstraints (fst (start_usage env e)) =
      (\<lambda>name. map_option default_ceilings (loaded name))"
    by (rule start_usage_constraints)
  then have "resourceConstraints (fst (start_usage env e)) name = Some (default_ceilings c)"
    using l by simp
  then show "\<exists>c'. resourceConstraints (fst (start_usage env e)) name = Some c' \<and>
         CPUConstraint c' = (if CPUConstraint c = 0 then MaxFloat64 else CPUConstraint c) \<and>
         MemoryConstraint c' = (if MemoryConstraint c = 0 then MaxUint64 else MemoryConstraint c) \<and>
         CPUConstraint c' \<noteq> 0 \<and> MemoryConstraint c' \<noteq> 0"
    using default_ceilings_fields [of c] default_ceilings_nonzero [of c] by blast
next
  assume "\<forall>s \<in> set (Get summary ''99''). CHR ''/'' \<in> set (Name_cs s)"
  then show "verifySummary constraints summary =
        Inr (if messages constraints (Get summary ''99'') = [] then None
             else Some (MetricViolationError ''resource constraints''
                    (messages constraints (Get summary ''99''))))"
    by (rule verifySummary_messages)
next
  fix s v
  assume "constraints (containerName s) = None"
    and "v \<in> set (messages constraints (Get summary ''99''))"
  then show "subject v \<noteq> Name_cs s" by (rule unconfigured_never_reported)
next
  fix s k
  assume s: "s \<in> set (Get summary ''99'')" and k: "constraints (containerName s) = Some k"
    and "Cpu s > CPUConstraint k"
  with breach_reported [of s "Get summary ''99''" constraints k] s k
  show "CPUViolation (Name_cs s) (Cpu s) (CPUConstraint k)
      \<in> set (messages constraints (Get summary ''99''))" by simp
next
  fix s k
  assume s: "s \<in> set (Get summary ''99'')" and k: "constraints (containerName s) = Some k"
    and "Mem s > MemoryConstraint k"
  with breach_reported [of s "Get summary ''99''" constraints k] s k
  show "MemoryViolation (Name_cs s) (to_MB (Mem s)) (to_MB (MemoryConstraint k))
      \<in> set (messages constraints (Get summary ''99''))" by simp
qed

text \<open>
  A container above both of its ceilings contributes two messages, not one.
\<close>

theorem two_messages_counterexample:
  "verifySummary [''c'' \<mapsto> \<lparr>CPUConstraint = 1, MemoryConstraint = 1\<rparr>]
         [''99'' \<mapsto> [\<lparr>Name_cs = ''pod/c'', Cpu = 2, Mem = 2\<rparr>]]
     = Inr (Some (MetricViolationError ''resource constraints''
         [CPUViolation ''pod/c'' 2 1, MemoryViolation ''pod/c'' (to_MB 2) (to_MB 1)]))"
  by (simp add: verifySummary_def Get_def index_at_def)

theorem constraints_and_violations_witness:
  "resourceConstraints (fst (start_usage
      \<lparr>ru_action = Inr ''start'', ru_provider = Inr ''gce'', ru_host = Inr ''10.0.0.1'',
       ru_nodeMode = Inr ''master'', ru_constraintsPath = Inr ''constraints.yaml'',
       ru_TemplateInto = (\<lambda>path m. Inr [''c'' \<mapsto> \<lparr>CPUConstraint = 1, MemoryConstraint = 0\<rparr>]),
       ru_NewResourceUsageGatherer = Inl (External ''no cluster''),
       ru_PrettyPrintJSON = (\<lambda>s. Inr ''{}'')\<rparr>
      createResourceUsageMetricMeasurement)) ''c''
     = Some \<lparr>CPUConstraint = 1, MemoryConstraint = MaxUint64\<rparr> \<and>
   verifySummary [''c'' \<mapsto> \<lparr>CPUConstraint = 1, MemoryConstraint = MaxUint64\<rparr>]
      [''99'' \<mapsto> [\<lparr>Name_cs = ''pod/c'', Cpu = 6 / 5, Mem = 5\<rparr>,
                  \<lparr>Name_cs = ''pod/d'', Cpu = 100, Mem = 100\<rparr>]]
     = Inr (Some (MetricViolationError ''resource constraints''
              [CPUViolation ''pod/c'' (6 / 5) 1]))"
proof -
  let ?env = "\<lparr>ru_action = Inr ''start'', ru_provider = Inr ''gce'', ru_host = Inr ''10.0.0.1'',
       ru_nodeMode = Inr ''master'', ru_constraintsPath = Inr ''constraints.yaml'',
       ru_TemplateInto = (\<lambda>path m. Inr [''c'' \<mapsto> \<lparr>CPUConstraint = 1, MemoryConstraint = 0\<rparr>]),
       ru_NewResourceUsageGatherer = Inl (External ''no cluster''),
       ru_PrettyPrintJSON = (\<lambda>s. Inr ''{}'')\<rparr>"
  let ?cs = "[''c'' \<mapsto> \<lparr>CPUConstraint = 1, MemoryConstraint = MaxUint64\<rparr>]"
  let ?summary = "[''99'' \<mapsto> [\<lparr>Name_cs = ''pod/c'', Cpu = 6 / 5, Mem = 5\<rparr>,
                  \<lparr>Name_cs = ''pod/d'', Cpu = 100, Mem = 100\<rparr>]]"
  note t = constraints_and_violations [of ?env "''gce''" "''10.0.0.1''" "''master''"
      "''constraints.yaml''" createResourceUsageMetricMeasurement
      "[''c'' \<mapsto> \<lparr>CPUConstraint = 1, MemoryConstraint = 0\<rparr>]" "''c''"
      "\<lparr>CPUConstraint = 1, MemoryConstraint = 0\<rparr>" ?summary ?cs]
  have m: "messages ?cs (Get ?summary ''99'') = [CPUViolation ''pod/c'' (6 / 5) 1]"
    by (simp add: messages_def Get_def containerName_def breaches_def MaxUint64_def)
  have a: "resourceConstraints (fst (start_usage ?env createResourceUsageMetricMeasurement)) ''c''
     = Some \<lparr>CPUConstraint = 1, MemoryConstraint = MaxUint64\<rparr>"
    using t by auto
  have b: "verifySummary ?cs ?summary
     = Inr (Some (MetricViolationError ''resource constraints'' [CPUViolation ''pod/c'' (6 / 5) 1]))"
    using t m by (simp add: Get_def)
  from a b show ?thesis by simp
qed


section \<open>Proofs: starting twice, gathering before start\<close>

lemma initialize_startTime: "startTime (fst (initialize env p)) = startTime p"
  by (simp add: initialize_def split: sum.splits)

lemma initialize_config: "config_prober (fst (initialize env p)) = config_prober p"
  by (simp add: initialize_def split: sum.splits)

lemma start_probes_success:
  assumes "start_probes env p = (p', None)"
  shows "startTime p' = pr_Now env \<and> config_prober p' = config_prober p"
proof -
  obtain p1 r where i: "initialize env p = (p1, r)" by (cases "initialize env p")
  have c: "config_prober p1 = config_prober p" using initialize_config [of env p] i by simp
  from assms i c show ?thesis
    by (auto simp: start_probes_def split: if_splits option.splits)
qed

lemma start_probes_failure:
  assumes "start_probes env p = (p', Some err)"
  shows "startTime p' = startTime p"
proof -
  obtain p1 r where i: "initialize env p = (p1, r)" by (cases "initialize env p")
  have c: "startTime p1 = startTime p" using initialize_startTime [of env p] i by simp
  from assms i c show ?thesis
    by (auto simp: start_probes_def split: if_splits option.splits)
qed

lemma start_probes_started:
  assumes "\<not> IsZero (startTime p)"
  shows "start_probes env p = (p, Some (CannotBeStartedTwice (Name_prober (config_prober p))))"
  using assms by (simp add: start_probes_def)

lemma Execute_probes_start:
  assumes "pr_CloudProvider env \<noteq> ''kubemark''" "pr_PrometheusFramework env \<noteq> None"
    and "pr_action env = Inr ''start''"
  shows "Execute_probes env p = (fst (start_probes env p), ([], snd (start_probes env p)))"
  using assms by (auto simp: Execute_probes_def split: prod.splits)

lemma Execute_probes_gather_not_started:
  assumes "pr_CloudProvider env \<noteq> ''kubemark''" "pr_PrometheusFramework env \<noteq> None"
    and "pr_action env = Inr ''gather''" "IsZero (startTime p)"
  shows "Execute_probes env p = (p, ([], Some (HasNotBeenStarted (Name_prober (config_prober p)))))"
  using assms by (auto simp: Execute_probes_def gather_probes_def)

lemma Execute_throughput_start_running:
  assumes "tp_action env = Inr ''start''" "isRunning s"
  shows "Execute_throughput env s = (s, ([], None))"
  using assms by (simp add: Execute_throughput_def)

lemma Execute_throughput_start_success:
  assumes "tp_action env = Inr ''start''" "Execute_throughput env s = (s', (sm, None))"
  shows "isRunning s'"
  using assms
  by (auto simp: Execute_throughput_def start_def split: if_splits option.splits)

lemma Execute_throughput_start_failure:
  assumes "tp_action env = Inr ''start''" "\<not> isRunning s"
    and "Execute_throughput env s = (s', (sm, Some err))"
  shows "\<not> isRunning s'"
  using assms
  by (auto simp: Execute_throughput_def start_def split: if_splits option.splits)

lemma Execute_throughput_gather_not_running:
  assumes "tp_action env = Inr ''gather''" "\<not> isRunning s"
  shows "Execute_throughput env s = (s, ([], Some MeasurementIsNotRunning))"
  using assms by (simp add: Execute_throughput_def gather_def)

lemma Execute_usage_gather_nil:
  assumes "ru_action env = Inr ''gather''" "gatherer e = None"
  shows "Execute_usage env e = (e, ([], None))"
  using assms by (simp add: Execute_usage_def gather_usage_def)

text \<open>
  C8 (as amended). For the probes measurement, when it is not skipped (the provider is not
  kubemark and Prometheus is enabled), a \<open>start\<close> that follows a \<open>start\<close> which returned
  \<open>nil\<close> returns the error "cannot be started twice" and changes nothing. The
  scheduling-throughput measurement does not reject a second \<open>start\<close>: after a \<open>start\<close>
  that returned \<open>nil\<close> it is running, and a further \<open>start\<close> returns \<open>nil\<close> and changes
  nothing.
\<close>

theorem second_start:
  "(pr_CloudProvider env1 \<noteq> ''kubemark'' \<longrightarrow> pr_PrometheusFramework env1 \<noteq> None \<longrightarrow>
    pr_action env1 = Inr ''start'' \<longrightarrow> pr_Now env1 \<noteq> 0 \<longrightarrow>
    pr_CloudProvider env2 \<noteq> ''kubemark'' \<longrightarrow> pr_PrometheusFramework env2 \<noteq> None \<longrightarrow>
    pr_action env2 = Inr ''start'' \<longrightarrow>
    Execute_probes env1 p = (p1, (sm1, None)) \<longrightarrow>
      Execute_probes env2 p1 =
        (p1, ([], Some (CannotBeStartedTwice (Name_prober (config_prober p)))))) \<and>
   (tp_action tenv1 = Inr ''start'' \<longrightarrow> tp_action tenv2 = Inr ''start'' \<longrightarrow>
    Execute_throughput tenv1 s = (s1, (tsm1, None)) \<longrightarrow>
      isRunning s1 \<and> Execute_throughput tenv2 s1 = (s1, ([], None)))"
proof (intro conjI impI)
  assume e1: "pr_CloudProvider env1 \<noteq> ''kubemark''" "pr_PrometheusFramework env1 \<noteq> None"
      "pr_action env1 = Inr ''start''"
    and now: "pr_Now env1 \<noteq> 0"
    and e2: "pr_CloudProvider env2 \<noteq> ''kubemark''" "pr_PrometheusFramework env2 \<noteq> None"
      "pr_action env2 = Inr ''start''"
    and first: "Execute_probes env1 p = (p1, (sm1, None))"
  from first have "start_probes env1 p = (p1, None)"
    unfolding Execute_probes_start [OF e1] by (cases "start_probes env1 p") simp
  then have st: "startTime p1 = pr_Now env1" and cf: "config_prober p1 = config_prober p"
    using start_probes_success by blast+
  from st now have "\<not> IsZero (startTime p1)" by (simp add: IsZero_def)
  then have "start_probes env2 p1 = (p1, Some (CannotBeStartedTwice (Name_prober (config_prober p1))))"
    by (rule start_probes_started)
  then show "Execute_probes env2 p1 =
        (p1, ([], Some (CannotBeStartedTwice (Name_prober (config_prober p)))))"
    unfolding Execute_probes_start [OF e2] by (simp add: cf)
next
  assume "tp_action tenv1 = Inr ''start''" "Execute_throughput tenv1 s = (s1, (tsm1, None))"
  then show "isRunning s1" by (rule Execute_throughput_start_success)
next
  assume a: "tp_action tenv1 = Inr ''start''" and b: "tp_action tenv2 = Inr ''start''"
    and c: "Execute_throughput tenv1 s = (s1, (tsm1, None))"
  from a c have "isRunning s1" by (rule Execute_throughput_start_success)
  with b show "Execute_throughput tenv2 s1 = (s1, ([], None))"
    by (rule Execute_throughput_start_running)
qed

text \<open>
  C9 (as amended). On a scheduling-throughput measurement that is not running (a new one,
  or one whose \<open>start\<close> failed) \<open>gather\<close> returns the error "measurement is not
  running"; on a probes measurement that is not skipped and has not been started (a new
  one, or one whose \<open>start\<close> failed) \<open>gather\<close> returns the error "has not been started".
  The resource-usage measurement without a gatherer returns no summary and \<open>nil\<close>.
\<close>

theorem gather_before_start:
  "(tp_action tenv = Inr ''gather'' \<longrightarrow> \<not> isRunning s \<longrightarrow>
      Execute_throughput tenv s = (s, ([], Some MeasurementIsNotRunning))) \<and>
   \<not> isRunning createSchedulingThroughputMeasurement \<and>
   (tp_action tenv' = Inr ''start'' \<longrightarrow> \<not> isRunning s \<longrightarrow>
    Execute_throughput tenv' s = (s', (tsm, Some terr)) \<longrightarrow> \<not> isRunning s') \<and>
   (pr_CloudProvider env \<noteq> ''kubemark'' \<longrightarrow> pr_PrometheusFramework env \<noteq> None \<longrightarrow>
    pr_action env = Inr ''gather'' \<longrightarrow> IsZero (startTime p) \<longrightarrow>
      Execute_probes env p = (p, ([], Some (HasNotBeenStarted (Name_prober (config_prober p)))))) \<and>
   IsZero (startTime (createProber cfg)) \<and>
   (pr_CloudProvider env' \<noteq> ''kubemark'' \<longrightarrow> pr_PrometheusFramework env' \<noteq> None \<longrightarrow>
    pr_action env' = Inr ''start'' \<longrightarrow> IsZero (startTime p) \<longrightarrow>
    Execute_probes env' p = (p', (sm, Some err)) \<longrightarrow> IsZero (startTime p')) \<and>
   (ru_action uenv = Inr ''gather'' \<longrightarrow> gatherer e = None \<longrightarrow>
      Execute_usage uenv e = (e, ([], None)))"
proof (intro conjI impI)
  assume "tp_action tenv = Inr ''gather''" "\<not> isRunning s"
  then show "Execute_throughput tenv s = (s, ([], Some MeasurementIsNotRunning))"
    by (rule Execute_throughput_gather_not_running)
next
  show "\<not> isRunning createSchedulingThroughputMeasurement"
    by (simp add: createSchedulingThroughputMeasurement_def)
next
  assume "tp_action tenv' = Inr ''start''" "\<not> isRunning s"
    "Execute_throughput tenv' s = (s', (tsm, Some terr))"
  then show "\<not> isRunning s'" by (rule Execute_throughput_start_failure)
next
  assume "pr_CloudProvider env \<noteq> ''kubemark''" "pr_PrometheusFramework env \<noteq> None"
    "pr_action env = Inr ''gather''" "IsZero (startTime p)"
  then show "Execute_probes env p =
      (p, ([], Some (HasNotBeenStarted (Name_prober (config_prober p)))))"
    by (rule Execute_probes_gather_not_started)
next
  show "IsZero (startTime (createProber cfg))" by (simp add: createProber_def IsZero_def)
next
  assume e: "pr_CloudProvider env' \<noteq> ''kubemark''" "pr_PrometheusFramework env' \<noteq> None"
    "pr_action env' = Inr ''start''"
    and z: "IsZero (startTime p)"
    and r: "Execute_probes env' p = (p', (sm, Some err))"
  from r have "start_probes env' p = (p', Some err)"
    unfolding Execute_probes_start [OF e] by (cases "start_probes env' p") simp
  then have "startTime p' = startTime p" by (rule start_probes_failure)
  with z show "IsZero (startTime p')" by simp
next
  assume "ru_action uenv = Inr ''gather''" "gatherer e = None"
  then show "Execute_usage uenv e = (e, ([], None))" by (rule Execute_usage_gather_nil)
qed

text \<open>
  A second \<open>start\<close> of the scheduling-throughput measurement returns \<open>nil\<close>.
\<close>

theorem throughput_second_start_counterexample:
  "Execute_throughput (example_throughput_env ''start'') createSchedulingThroughputMeasurement
     = (\<lparr>schedulingThroughputs = [], isRunning = True, stopCh = OpenChan\<rparr>, ([], None)) \<and>
   Execute_throughput (example_throughput_env ''start'')
       \<lparr>schedulingThroughputs = [], isRunning = True, stopCh = OpenChan\<rparr>
     = (\<lparr>schedulingThroughputs = [], isRunning = True, stopCh = OpenChan\<rparr>, ([], None))"
  by (simp add: Execute_throughput_def example_throughput_env_def start_def
      createSchedulingThroughputMeasurement_def)

theorem second_start_witness:
  "snd (Execute_probes (example_probes_env ''start'') (createProber networkLatencyConfig))
     = ([], None) \<and>
   snd (Execute_probes (example_probes_env ''start'')
          (fst (Execute_probes (example_probes_env ''start'') (createProber networkLatencyConfig))))
     = ([], Some (CannotBeStartedTwice ''InClusterNetworkLatency'')) \<and>
   snd (Execute_throughput (example_throughput_env ''start'')
          (fst (Execute_throughput (example_throughput_env ''start'')
                  createSchedulingThroughputMeasurement)))
     = ([], None)"
proof -
  let ?env = "example_probes_env ''start''"
  let ?p = "createProber networkLatencyConfig"
  let ?tenv = "example_throughput_env ''start''"
  let ?s = createSchedulingThroughputMeasurement
  have first: "snd (Execute_probes ?env ?p) = ([], None)"
    by (simp add: Execute_probes_def example_probes_env_def start_probes_def initialize_def
        createProber_def IsZero_def)
  then have f: "Execute_probes ?env ?p = (fst (Execute_probes ?env ?p), ([], None))"
    by (simp add: prod_eq_iff)
  have tfirst: "snd (Execute_throughput ?tenv ?s) = ([], None)"
    by (simp add: Execute_throughput_def example_throughput_env_def start_def
        createSchedulingThroughputMeasurement_def)
  then have tf: "Execute_throughput ?tenv ?s = (fst (Execute_throughput ?tenv ?s), ([], None))"
    by (simp add: prod_eq_iff)
  note t = second_start [of ?env ?env ?p "fst (Execute_probes ?env ?p)" "[]"
      ?tenv ?tenv ?s "fst (Execute_throughput ?tenv ?s)" "[]"]
  have env: "pr_CloudProvider ?env \<noteq> ''kubemark''" "pr_PrometheusFramework ?env \<noteq> None"
    "pr_action ?env = Inr ''start''" "pr_Now ?env \<noteq> 0" "tp_action ?tenv = Inr ''start''"
    by (simp_all add: example_probes_env_def example_throughput_env_def)
  have name: "Name_prober (config_prober ?p) = ''InClusterNetworkLatency''"
    by (simp add: createProber_def networkLatencyConfig_def)
  from t env f tf name first tfirst show ?thesis by simp
qed

text \<open>
  \<open>gather\<close> on a new resource-usage measurement returns \<open>nil, nil\<close>.
\<close>

theorem usage_gather_counterexample:
  "Execute_usage (example_usage_env ''gather'') createResourceUsageMetricMeasurement
     = (createResourceUsageMetricMeasurement, ([], None))"
  by (simp add: Execute_usage_def example_usage_env_def gather_usage_def
      createResourceUsageMetricMeasurement_def)

theorem gather_before_start_witness:
  "Execute_throughput (example_throughput_env ''gather'') createSchedulingThroughputMeasurement
     = (createSchedulingThroughputMeasurement, ([], Some MeasurementIsNotRunning)) \<and>
   Execute_probes (example_probes_env ''gather'') (createProber networkLatencyConfig)
     = (createProber networkLatencyConfig,
        ([], Some (HasNotBeenStarted ''InClusterNetworkLatency''))) \<and>
   snd (Execute_throughput ((example_throughput_env ''start'')\<lparr>tp_NewPodStore := Some (External ''no cluster'')\<rparr>)
          createSchedulingThroughputMeasurement)
     = ([], Some (PodStoreCreationError (External ''no cluster''))) \<and>
   Execute_throughput (example_throughput_env ''gather'')
       (fst (Execute_throughput ((example_throughput_env ''start'')\<lparr>tp_NewPodStore := Some (External ''no cluster'')\<rparr>)
          createSchedulingThroughputMeasurement))
     = (fst (Execute_throughput ((example_throughput_env ''start'')\<lparr>tp_NewPodStore := Some (External ''no cluster'')\<rparr>)
          createSchedulingThroughputMeasurement), ([], Some MeasurementIsNotRunning))"
proof -
  let ?tg = "example_throughput_env ''gather''"
  let ?ts = "(example_throughput_env ''start'')\<lparr>tp_NewPodStore := Some (External ''no cluster'')\<rparr>"
  let ?s = createSchedulingThroughputMeasurement
  let ?pg = "example_probes_env ''gather''"
  let ?p = "createProber networkLatencyConfig"
  note t1 = gather_before_start [of ?tg ?s ?ts "fst (Execute_throughput ?ts ?s)" "[]"
      "PodStoreCreationError (External ''no cluster'')" ?pg ?p networkLatencyConfig
      ?pg ?p "[]" "External ''no cluster''" "example_usage_env ''gather''"
      createResourceUsageMetricMeasurement]
  note t2 = gather_before_start [of ?tg "fst (Execute_throughput ?ts ?s)" ?ts
      "fst (Execute_throughput ?ts ?s)" "[]"
      "PodStoreCreationError (External ''no cluster'')" ?pg ?p networkLatencyConfig
      ?pg ?p "[]" "External ''no cluster''" "example_usage_env ''gather''"
      createResourceUsageMetricMeasurement]
  have env: "tp_action ?tg = Inr ''gather''" "tp_action ?ts = Inr ''start''"
    "pr_CloudProvider ?pg \<noteq> ''kubemark''" "pr_PrometheusFramework ?pg \<noteq> None"
    "pr_action ?pg = Inr ''gather''"
    by (simp_all add: example_probes_env_def example_throughput_env_def)
  have name: "Name_prober (config_prober ?p) = ''InClusterNetworkLatency''"
    by (simp add: createProber_def networkLatencyConfig_def)
  have failed: "snd (Execute_throughput ?ts ?s)
      = ([], Some (PodStoreCreationError (External ''no cluster'')))"
    by (simp add: Execute_throughput_def example_throughput_env_def start_def
        createSchedulingThroughputMeasurement_def)
  then have ff: "Execute_throughput ?ts ?s = (fst (Execute_throughput ?ts ?s),
      ([], Some (PodStoreCreationError (External ''no cluster''))))"
    by (simp add: prod_eq_iff)
  have a: "Execute_throughput ?tg ?s = (?s, ([], Some MeasurementIsNotRunning))"
    using t1 env by simp
  have b: "Execute_probes ?pg ?p = (?p, ([], Some (HasNotBeenStarted ''InClusterNetworkLatency'')))"
    using t1 env name by simp
  have nr: "\<not> isRunning (fst (Execute_throughput ?ts ?s))"
    using t1 env ff by simp
  have c: "Execute_throughput ?tg (fst (Execute_throughput ?ts ?s))
      = (fst (Execute_throughput ?ts ?s), ([], Some MeasurementIsNotRunning))"
    using t2 env nr by simp
  from a b failed c show ?thesis by simp
qed

end
